theory Spec2Isabelle
  imports Main "HOL-Library.Sublist"
begin

section \<open>The sync of the container's configuration to R2 (src/gateway/sync.ts)\<close>

text \<open>
  \<open>syncToR2\<close> is an asynchronous function that talks to a sandbox: it starts shell
  commands, awaits them with a timeout and reads their logs. The model makes three things
  explicit that the TypeScript leaves implicit:
  \<^item> every call that can throw returns a sum, \<open>Inl\<close> the thrown value, and every
    \<open>try\<close>/\<open>catch\<close> of the source is a \<open>io_try\<close> of the model;
  \<^item> every call issued to the mount provider or to the sandbox is appended to a trace,
    so that "the push step is never executed" is a statement about that trace;
  \<^item> the sandbox is a record of its answers. \<open>syncToR2\<close> starts each of its nine
    command lines at most once, awaits each process once and reads the logs of each process
    at most once, in a fixed order, so the answer a stateful sandbox gives to a call is a
    function of the command line: whatever an earlier command (the restore, say) did to the
    file system is in the answers given to the later ones.
  Strings are \<open>char list\<close>; a character stands for the code unit of the same number, so
  only code units below 256 are in the model.
\<close>

subsection \<open>JavaScript values\<close>

text \<open>
  What a \<open>catch (err)\<close> receives: an \<open>Error\<close> object with its message, or any other
  value. The handlers of the source read it with
  \<^verbatim>\<open>err instanceof Error ? err.message : 'Unknown error'\<close>.
\<close>

datatype thrown = ErrorObject string | OtherValue

fun error_details :: "thrown \<Rightarrow> string" where
  "error_details (ErrorObject msg) = msg"
| "error_details OtherValue = ''Unknown error''"

text \<open>
  A string that may be \<open>undefined\<close> is a \<open>string option\<close>. It is truthy when it is
  defined and not empty; \<open>a || b\<close> is \<open>a\<close> when \<open>a\<close> is truthy and \<open>b\<close> otherwise.
\<close>

fun truthy :: "string option \<Rightarrow> bool" where
  "truthy None = False"
| "truthy (Some s) = (s \<noteq> [])"

definition or_else :: "string option \<Rightarrow> string option \<Rightarrow> string option" where
  "or_else a b = (if truthy a then a else b)"

text \<open>\<open>String.prototype.includes\<close>: the word occurs somewhere in the string.\<close>

fun str_includes :: "string \<Rightarrow> string \<Rightarrow> bool" where
  "str_includes [] w = (w = [])"
| "str_includes (c # cs) w = (prefix w (c # cs) \<or> str_includes cs w)"

text \<open>\<^verbatim>\<open>!!s?.includes(w)\<close>: \<open>undefined\<close> gives \<open>false\<close>.\<close>

fun opt_includes :: "string option \<Rightarrow> string \<Rightarrow> bool" where
  "opt_includes None w = False"
| "opt_includes (Some s) w = str_includes s w"

text \<open>
  \<open>String.prototype.trim\<close> removes white space and line terminators from both ends.
  Below 256 these are TAB, LF, VT, FF, CR, SP and NBSP.
\<close>

definition white_space :: "char \<Rightarrow> bool" where
  "white_space c = (c \<in> set [CHR 0x09, CHR 0x0A, CHR 0x0B, CHR 0x0C, CHR 0x0D, CHR 0x20, CHR 0xA0])"

definition trim :: "string \<Rightarrow> string" where
  "trim s = rev (dropWhile white_space (rev (dropWhile white_space s)))"

text \<open>
  The regular expression \<^verbatim>\<open>/^\d{4}-\d{2}-\d{2}/\<close> as a list of items matched at the start
  of the string; \<^verbatim>\<open>\d\<close> without the unicode flag is \<open>[0-9]\<close>.
\<close>

datatype re_item = Digit | Lit char

definition digit :: "char \<Rightarrow> bool" where
  "digit c = (c \<in> set ''0123456789'')"

fun match_start :: "re_item list \<Rightarrow> string \<Rightarrow> bool" where
  "match_start [] s = True"
| "match_start (i # items) [] = False"
| "match_start (Digit # items) (c # cs) = (digit c \<and> match_start items cs)"
| "match_start (Lit x # items) (c # cs) = (c = x \<and> match_start items cs)"

definition date_re :: "re_item list" where
  "date_re = [Digit, Digit, Digit, Digit, Lit CHR ''-'', Digit, Digit, Lit CHR ''-'', Digit, Digit]"

text \<open>
  The test of line 141, \<^verbatim>\<open>lastSync && lastSync.match(/^\d{4}-\d{2}-\d{2}/)\<close>: the
  string is defined, not empty, and starts with a date.
\<close>

definition date_prefixed :: "string option \<Rightarrow> bool" where
  "date_prefixed lastSync =
     (case lastSync of None \<Rightarrow> False | Some s \<Rightarrow> s \<noteq> [] \<and> match_start date_re s)"

subsection \<open>The sandbox, the environment and the result\<close>

text \<open>The logs of a process; the source reads \<open>stdout\<close> with \<^verbatim>\<open>?.\<close>, so it may be undefined.\<close>

record Logs =
  stdout :: "string option"
  stderr :: "string option"

text \<open>
  A process handle: what awaiting it with a timeout (in milliseconds) throws, if anything,
  what \<open>getLogs()\<close> gives, and the exit code of the command once it has ended.
  \<open>syncToR2\<close> never reads the exit code (nor the status) of a process.
\<close>

record Process =
  await_outcome :: "nat \<Rightarrow> thrown option"
  logs_outcome :: "thrown + Logs"
  exitCode :: "int option"

record MoltbotEnv =
  R2_ACCESS_KEY_ID :: "string option"
  R2_SECRET_ACCESS_KEY :: "string option"
  CF_ACCOUNT_ID :: "string option"

record Sandbox =
  start_outcome :: "string \<Rightarrow> thrown + Process"
  mount_outcome :: "MoltbotEnv \<Rightarrow> bool"

record SyncResult =
  success :: bool
  lastSync :: "string option"
  error :: "string option"
  details :: "string option"

text \<open>The calls \<open>syncToR2\<close> issues; a process is named by its command line.\<close>

datatype call =
  Mount
| StartProcess string
| WaitForProcess string nat
| GetLogs string

subsection \<open>Awaited computations\<close>

text \<open>
  An awaited computation gives a value or throws, and has issued some calls. \<open>io_bind\<close> is
  sequencing (a throw skips the rest), \<open>io_try\<close> is \<open>try\<close>/\<open>catch\<close>.
\<close>

type_synonym 'a io = "(thrown + 'a) \<times> call list"

definition io_ret :: "'a \<Rightarrow> 'a io" where
  "io_ret x = (Inr x, [])"

definition io_bind :: "'a io \<Rightarrow> ('a \<Rightarrow> 'b io) \<Rightarrow> 'b io" where
  "io_bind m f =
     (case fst m of
        Inl e \<Rightarrow> (Inl e, snd m)
      | Inr x \<Rightarrow> (fst (f x), snd m @ snd (f x)))"

definition io_try :: "'a io \<Rightarrow> (thrown \<Rightarrow> 'a io) \<Rightarrow> 'a io" where
  "io_try m h =
     (case fst m of
        Inl e \<Rightarrow> (fst (h e), snd m @ snd (h e))
      | Inr x \<Rightarrow> m)"

definition startProcess :: "Sandbox \<Rightarrow> string \<Rightarrow> Process io" where
  "startProcess sandbox cmd = (start_outcome sandbox cmd, [StartProcess cmd])"

definition getLogs :: "string \<Rightarrow> Process \<Rightarrow> Logs io" where
  "getLogs cmd proc = (logs_outcome proc, [GetLogs cmd])"

text \<open>
  \<open>waitForProcess\<close> is imported from gateway/utils, which is not among the sources: what
  it does for a process and a timeout is a parameter, the field \<open>await_outcome\<close> of the
  process. Every behaviour is covered: returning, throwing when the timeout is exceeded (as
  the interface in the spec has it: "exceeding timeout surfaces as an error on the await
  call"), throwing for another reason.
\<close>

definition waitForProcess :: "string \<Rightarrow> Process \<Rightarrow> nat \<Rightarrow> unit io" where
  "waitForProcess cmd proc ms =
     ((case await_outcome proc ms of Some e \<Rightarrow> Inl e | None \<Rightarrow> Inr ()), [WaitForProcess cmd ms])"

text \<open>
  Modelled from the spec: \<open>mountR2Storage\<close> is imported from gateway/r2, which is not among
  the sources. The spec gives the mount provider as \<open>mount(credentials) -> bool\<close>,
  "idempotent, returns a boolean": it does not throw.
\<close>

definition mountR2Storage :: "Sandbox \<Rightarrow> MoltbotEnv \<Rightarrow> bool io" where
  "mountR2Storage sandbox env = (Inr (mount_outcome sandbox env), [Mount])"

subsection \<open>The command lines\<close>

text \<open>
  \<open>R2_MOUNT_PATH\<close> is imported from config, which is not among the sources: it is a
  parameter \<open>mp\<close> of every definition that uses it.
\<close>

definition r2SyncCmd :: "string \<Rightarrow> string" where
  \<open>r2SyncCmd mp = ''test -f '' @ mp @ ''/.last-sync && echo "r2"''\<close>

definition localSyncCmd :: string where
  \<open>localSyncCmd = ''test -f /root/.clawdbot/.last-sync && echo "local"''\<close>

definition userCmd :: string where
  \<open>userCmd = ''test -f /root/clawd/USER.md && echo "user"''\<close>

definition soulCmd :: string where
  \<open>soulCmd = ''test -f /root/clawd/SOUL.md && echo "soul"''\<close>

definition memoryCmd :: string where
  \<open>memoryCmd = ''test -f /root/clawd/MEMORY.md && echo "memory"''\<close>

definition restoreCmd :: "string \<Rightarrow> string" where
  \<open>restoreCmd mp =
     ''set -e; mkdir -p /root/.clawdbot /root/clawd/skills /root/clawd; if [ -d '' @ mp
     @ ''/clawdbot ]; then rsync -r --no-times --delete '' @ mp
     @ ''/clawdbot/ /root/.clawdbot/; fi; if [ -d '' @ mp
     @ ''/skills ]; then rsync -r --no-times --delete '' @ mp
     @ ''/skills/ /root/clawd/skills/; fi; if [ -d '' @ mp
     @ ''/workspace-core ]; then rsync -r --no-times --delete --exclude='/.git/' --exclude='/.git/**' --exclude='/skills/' --exclude='/skills/**' --exclude='/node_modules/' --exclude='/node_modules/**' '' @ mp
     @ ''/workspace-core/ /root/clawd/; fi; cp -f '' @ mp
     @ ''/.last-sync /root/.clawdbot/.last-sync''\<close>

definition checkCmd :: string where
  \<open>checkCmd = ''test -f /root/.clawdbot/clawdbot.json && echo "ok"''\<close>

definition syncCmd :: "string \<Rightarrow> string" where
  \<open>syncCmd mp =
     ''rsync -r --no-times --delete --exclude='*.lock' --exclude='*.log' --exclude='*.tmp' /root/.clawdbot/ '' @ mp
     @ ''/clawdbot/ && rsync -r --no-times --delete /root/clawd/skills/ '' @ mp
     @ ''/skills/ && rsync -r --no-times --delete --exclude='/.git/' --exclude='/.git/**' --exclude='/skills/' --exclude='/skills/**' --exclude='/node_modules/' --exclude='/node_modules/**' /root/clawd/ '' @ mp
     @ ''/workspace-core/ && date -Iseconds > '' @ mp @ ''/.last-sync''\<close>

definition timestampCmd :: "string \<Rightarrow> string" where
  \<open>timestampCmd mp = ''cat '' @ mp @ ''/.last-sync''\<close>

subsection \<open>syncToR2, block by block\<close>

text \<open>
  Lines 45-52, 54-61, 63-70, 72-79 and 81-88: the five probes are the same block, up to
  the command line and the word looked for in the standard output. The flag starts
  \<open>false\<close>, is set from the logs when nothing throws, and is set to \<open>false\<close> by the
  handler.
\<close>

definition probe :: "Sandbox \<Rightarrow> string \<Rightarrow> string \<Rightarrow> bool io" where
  "probe sandbox cmd w =
     io_try
       (io_bind (startProcess sandbox cmd) (\<lambda>proc.
        io_bind (waitForProcess cmd proc 5000) (\<lambda>_.
        io_bind (getLogs cmd proc) (\<lambda>logs.
        io_ret (opt_includes (stdout logs) w)))))
       (\<lambda>_. io_ret False)"

text \<open>
  The blocks below give \<open>Some r\<close> when the source executes \<open>return r\<close> and \<open>None\<close>
  when control falls through to the next statement.
\<close>

text \<open>Lines 91-101, the body of the \<open>if\<close> of line 90.\<close>

definition restore :: "string \<Rightarrow> Sandbox \<Rightarrow> SyncResult option io" where
  "restore mp sandbox =
     io_try
       (io_bind (startProcess sandbox (restoreCmd mp)) (\<lambda>restoreProc.
        io_bind (waitForProcess (restoreCmd mp) restoreProc 30000) (\<lambda>_.
        io_ret None)))
       (\<lambda>err. io_ret (Some \<lparr>success = False, lastSync = None,
                  error = Some ''Restore failed'', details = Some (error_details err)\<rparr>))"

text \<open>Lines 106-123, the sanity check of the source.\<close>

definition verify_source :: "Sandbox \<Rightarrow> SyncResult option io" where
  "verify_source sandbox =
     io_try
       (io_bind (startProcess sandbox checkCmd) (\<lambda>checkProc.
        io_bind (waitForProcess checkCmd checkProc 5000) (\<lambda>_.
        io_bind (getLogs checkCmd checkProc) (\<lambda>checkLogs.
        if \<not> opt_includes (stdout checkLogs) ''ok''
        then io_ret (Some \<lparr>success = False, lastSync = None,
               error = Some ''Sync aborted: source missing clawdbot.json'',
               details = Some ''The local config directory is missing critical files. This could indicate corruption or an incomplete setup.''\<rparr>)
        else io_ret None))))
       (\<lambda>err. io_ret (Some \<lparr>success = False, lastSync = None,
                  error = Some ''Failed to verify source files'',
                  details = Some (error_details err)\<rparr>))"

text \<open>Lines 127-157, the push and the confirmation.\<close>

definition push :: "string \<Rightarrow> Sandbox \<Rightarrow> SyncResult io" where
  "push mp sandbox =
     io_try
       (io_bind (startProcess sandbox (syncCmd mp)) (\<lambda>proc.
        io_bind (waitForProcess (syncCmd mp) proc 30000) (\<lambda>_.
        io_bind (startProcess sandbox (timestampCmd mp)) (\<lambda>timestampProc.
        io_bind (waitForProcess (timestampCmd mp) timestampProc 5000) (\<lambda>_.
        io_bind (getLogs (timestampCmd mp) timestampProc) (\<lambda>timestampLogs.
        let lastSync = map_option trim (stdout timestampLogs) in
        if date_prefixed lastSync
        then io_ret \<lparr>success = True, lastSync = lastSync, error = None, details = None\<rparr>
        else
          io_bind (getLogs (syncCmd mp) proc) (\<lambda>logs.
          io_ret \<lparr>success = False, lastSync = None, error = Some ''Sync failed'',
            details = or_else (stderr logs)
                        (or_else (stdout logs) (Some ''No timestamp file created''))\<rparr>)))))))
       (\<lambda>err. io_ret \<lparr>success = False, lastSync = None, error = Some ''Sync error'',
                  details = Some (error_details err)\<rparr>)"

text \<open>Lines 104-157: the sanity check, then the push.\<close>

definition verify_and_push :: "string \<Rightarrow> Sandbox \<Rightarrow> SyncResult io" where
  "verify_and_push mp sandbox =
     io_bind (verify_source sandbox) (\<lambda>returned.
     case returned of
       Some result \<Rightarrow> io_ret result
     | None \<Rightarrow> push mp sandbox)"

text \<open>Lines 90-157: what \<open>syncToR2\<close> does once the five flags are set.\<close>

definition after_probes ::
  "string \<Rightarrow> Sandbox \<Rightarrow> bool \<Rightarrow> bool \<Rightarrow> bool \<Rightarrow> bool \<Rightarrow> bool \<Rightarrow> SyncResult io" where
  "after_probes mp sandbox r2HasSync localHasSync localHasUser localHasSoul localHasMemory =
     io_bind
       (if r2HasSync \<and> (\<not> localHasSync \<or> \<not> localHasUser \<or> \<not> localHasSoul
            \<or> \<not> localHasMemory)
        then restore mp sandbox else io_ret None) (\<lambda>returned.
     case returned of
       Some result \<Rightarrow> io_ret result
     | None \<Rightarrow> verify_and_push mp sandbox)"

text \<open>Lines 27-158.\<close>

definition syncToR2 :: "string \<Rightarrow> Sandbox \<Rightarrow> MoltbotEnv \<Rightarrow> SyncResult io" where
  "syncToR2 mp sandbox env =
     (if \<not> truthy (R2_ACCESS_KEY_ID env) \<or> \<not> truthy (R2_SECRET_ACCESS_KEY env)
         \<or> \<not> truthy (CF_ACCOUNT_ID env)
      then io_ret \<lparr>success = False, lastSync = None,
             error = Some ''R2 storage is not configured'', details = None\<rparr>
      else
        io_bind (mountR2Storage sandbox env) (\<lambda>mounted.
        if \<not> mounted
        then io_ret \<lparr>success = False, lastSync = None,
               error = Some ''Failed to mount R2 storage'', details = None\<rparr>
        else
          io_bind (probe sandbox (r2SyncCmd mp) ''r2'') (\<lambda>r2HasSync.
          io_bind (probe sandbox localSyncCmd ''local'') (\<lambda>localHasSync.
          io_bind (probe sandbox userCmd ''user'') (\<lambda>localHasUser.
          io_bind (probe sandbox soulCmd ''soul'') (\<lambda>localHasSoul.
          io_bind (probe sandbox memoryCmd ''memory'') (\<lambda>localHasMemory.
          after_probes mp sandbox r2HasSync localHasSync localHasUser localHasSoul
            localHasMemory)))))))"

subsection \<open>What the sandbox answers, and what was called\<close>

text \<open>
  The vocabulary of the statements below. \<open>run_outcome\<close> is what starting a command and
  awaiting it throws, if anything; \<open>run_logs\<close> is what starting it, awaiting it and
  reading its logs gives.
\<close>

definition run_outcome :: "Sandbox \<Rightarrow> string \<Rightarrow> nat \<Rightarrow> thrown option" where
  "run_outcome sandbox cmd ms =
     (case start_outcome sandbox cmd of Inl e \<Rightarrow> Some e | Inr proc \<Rightarrow> await_outcome proc ms)"

text \<open>The logs of the process started for a command.\<close>

definition process_logs :: "Sandbox \<Rightarrow> string \<Rightarrow> thrown + Logs" where
  "process_logs sandbox cmd =
     (case start_outcome sandbox cmd of Inl e \<Rightarrow> Inl e | Inr proc \<Rightarrow> logs_outcome proc)"

definition run_logs :: "Sandbox \<Rightarrow> string \<Rightarrow> nat \<Rightarrow> thrown + Logs" where
  "run_logs sandbox cmd ms =
     (case start_outcome sandbox cmd of
        Inl e \<Rightarrow> Inl e
      | Inr proc \<Rightarrow>
          (case await_outcome proc ms of Some e \<Rightarrow> Inl e | None \<Rightarrow> logs_outcome proc))"

text \<open>The calls a computation issued, and the value it gave if it did not throw.\<close>

definition calls :: "'a io \<Rightarrow> call list" where
  "calls m = snd m"

definition returns :: "'a io \<Rightarrow> 'a \<Rightarrow> bool" where
  "returns m x = (fst m = Inr x)"

text \<open>The flag a probe sets.\<close>

definition flag :: "Sandbox \<Rightarrow> string \<Rightarrow> string \<Rightarrow> bool" where
  "flag sandbox cmd w = returns (probe sandbox cmd w) True"

text \<open>The condition of line 90, on the flags the five probes set.\<close>

definition restore_needed :: "string \<Rightarrow> Sandbox \<Rightarrow> bool" where
  "restore_needed mp sandbox =
     (flag sandbox (r2SyncCmd mp) ''r2''
      \<and> (\<not> flag sandbox localSyncCmd ''local'' \<or> \<not> flag sandbox userCmd ''user''
           \<or> \<not> flag sandbox soulCmd ''soul'' \<or> \<not> flag sandbox memoryCmd ''memory''))"

text \<open>The calls of the five probes, in the order of the source.\<close>

definition probe_calls :: "string \<Rightarrow> Sandbox \<Rightarrow> call list" where
  "probe_calls mp sandbox =
     calls (probe sandbox (r2SyncCmd mp) ''r2'') @ calls (probe sandbox localSyncCmd ''local'')
     @ calls (probe sandbox userCmd ''user'') @ calls (probe sandbox soulCmd ''soul'')
     @ calls (probe sandbox memoryCmd ''memory'')"

text \<open>The five probes: command line and word.\<close>

definition probes :: "string \<Rightarrow> (string \<times> string) list" where
  "probes mp = [(r2SyncCmd mp, ''r2''), (localSyncCmd, ''local''), (userCmd, ''user''),
     (soulCmd, ''soul''), (memoryCmd, ''memory'')]"

text \<open>The command line a call is about.\<close>

fun call_cmd :: "call \<Rightarrow> string option" where
  "call_cmd Mount = None"
| "call_cmd (StartProcess cmd) = Some cmd"
| "call_cmd (WaitForProcess cmd ms) = Some cmd"
| "call_cmd (GetLogs cmd) = Some cmd"

text \<open>The shape of a result: a timestamp with success and only then, an error otherwise.\<close>

definition well_shaped :: "SyncResult \<Rightarrow> bool" where
  "well_shaped r =
     (if success r then lastSync r \<noteq> None \<and> error r = None \<and> details r = None
      else error r \<noteq> None \<and> lastSync r = None)"

subsection \<open>Sandboxes to run the model on\<close>

text \<open>
  A process that ends in time and well, with the given standard output and no error output.
\<close>

definition finished :: "string \<Rightarrow> Process" where
  "finished out =
     \<lparr>await_outcome = (\<lambda>ms. None), logs_outcome = Inr \<lparr>stdout = Some out, stderr = Some []\<rparr>,
      exitCode = Some 0\<rparr>"

definition example_mp :: string where
  "example_mp = ''/data/moltbot''"

definition example_env :: MoltbotEnv where
  "example_env = \<lparr>R2_ACCESS_KEY_ID = Some ''key'', R2_SECRET_ACCESS_KEY = Some ''secret'',
     CF_ACCOUNT_ID = Some ''account''\<rparr>"

text \<open>
  A container in which every file is there, on both sides, and the push writes its marker:
  each \<open>test -f ... && echo\<close> prints its word, the other commands print nothing, and
  reading the marker gives a timestamp.
\<close>

definition complete_sandbox :: Sandbox where
  "complete_sandbox =
     \<lparr>start_outcome = (\<lambda>cmd. Inr (finished
        (if cmd = r2SyncCmd example_mp then ''r2'' @ [CHR 0x0A]
         else if cmd = localSyncCmd then ''local'' @ [CHR 0x0A]
         else if cmd = userCmd then ''user'' @ [CHR 0x0A]
         else if cmd = soulCmd then ''soul'' @ [CHR 0x0A]
         else if cmd = memoryCmd then ''memory'' @ [CHR 0x0A]
         else if cmd = checkCmd then ''ok'' @ [CHR 0x0A]
         else if cmd = timestampCmd example_mp then ''2026-01-15T10:30:00+00:00'' @ [CHR 0x0A]
         else []))),
      mount_outcome = (\<lambda>env. True)\<rparr>"

text \<open>The same sandbox with another answer to one command line.\<close>

definition answering :: "Sandbox \<Rightarrow> string \<Rightarrow> thrown + Process \<Rightarrow> Sandbox" where
  "answering sandbox cmd outcome =
     sandbox\<lparr>start_outcome := (start_outcome sandbox)(cmd := outcome)\<rparr>"

text \<open>A process that is still running when its timeout is over: the await throws.\<close>

definition timed_out :: Process where
  "timed_out =
     \<lparr>await_outcome = (\<lambda>ms. Some (ErrorObject ''timeout'')),
      logs_outcome = Inr \<lparr>stdout = Some [], stderr = Some []\<rparr>, exitCode = None\<rparr>"

text \<open>A process that ends in time and whose logs cannot be read.\<close>

definition logs_lost :: Process where
  "logs_lost =
     \<lparr>await_outcome = (\<lambda>ms. None), logs_outcome = Inl (ErrorObject ''logs unavailable''),
      exitCode = Some 0\<rparr>"

text \<open>
  The complete container, but the marker reads empty after the push and the logs of the
  push cannot be read.
\<close>

definition logs_lost_sandbox :: Sandbox where
  "logs_lost_sandbox =
     answering (answering complete_sandbox (timestampCmd example_mp) (Inr (finished [])))
       (syncCmd example_mp) (Inr logs_lost)"

text \<open>
  A command that fails: it ends in time with exit code 1 and a message on its error output,
  and nothing is thrown.
\<close>

definition exited_with_error :: Process where
  "exited_with_error =
     \<lparr>await_outcome = (\<lambda>ms. None),
      logs_outcome = Inr \<lparr>stdout = Some [], stderr = Some ''rsync error''\<rparr>,
      exitCode = Some 1\<rparr>"

text \<open>The complete container without its primary config file: the check prints nothing.\<close>

definition config_missing_sandbox :: Sandbox where
  "config_missing_sandbox = answering complete_sandbox checkCmd (Inr (finished []))"

text \<open>The complete container, in which the check does not end in time.\<close>

definition check_hangs_sandbox :: Sandbox where
  "check_hangs_sandbox = answering complete_sandbox checkCmd (Inr timed_out)"

text \<open>The complete container without USER.md: the probe prints nothing.\<close>

definition user_missing_sandbox :: Sandbox where
  "user_missing_sandbox = answering complete_sandbox userCmd (Inr (finished []))"

text \<open>The same, in which the restore does not end in time.\<close>

definition restore_hangs_sandbox :: Sandbox where
  "restore_hangs_sandbox = answering user_missing_sandbox (restoreCmd example_mp) (Inr timed_out)"

text \<open>The complete container, in which the probe of the local marker does not end in time.\<close>

definition probe_hangs_sandbox :: Sandbox where
  "probe_hangs_sandbox = answering complete_sandbox localSyncCmd (Inr timed_out)"

text \<open>
  The container without USER.md, in which the restore command fails (under \<open>set -e\<close>
  its exit code is that of the failing \<open>rsync\<close>) without anything being thrown.
\<close>

definition restore_fails_sandbox :: Sandbox where
  "restore_fails_sandbox =
     answering user_missing_sandbox (restoreCmd example_mp) (Inr exited_with_error)"

section \<open>Properties\<close>

subsection \<open>Sequencing and handlers\<close>

lemma io_bind_simps [simp]:
  "io_bind (Inr x, t) f = (fst (f x), t @ snd (f x))"
  "io_bind (Inl e, t) f = (Inl e, t)"
  by (simp_all add: io_bind_def)

lemma io_try_simps [simp]:
  "io_try (Inr x, t) h = (Inr x, t)"
  "io_try (Inl e, t) h = (fst (h e), t @ snd (h e))"
  by (simp_all add: io_try_def)

lemma io_ret_simps [simp]: "fst (io_ret x) = Inr x" "snd (io_ret x) = []"
  by (simp_all add: io_ret_def)

subsection \<open>The command lines are pairwise different\<close>

lemma cmd_heads:
  "hd (r2SyncCmd mp) = CHR ''t''" "hd localSyncCmd = CHR ''t''" "hd userCmd = CHR ''t''"
  "hd soulCmd = CHR ''t''" "hd memoryCmd = CHR ''t''" "hd checkCmd = CHR ''t''"
  "hd (restoreCmd mp) = CHR ''s''" "hd (syncCmd mp) = CHR ''r''" "hd (timestampCmd mp) = CHR ''c''"
  by (simp_all add: r2SyncCmd_def localSyncCmd_def userCmd_def soulCmd_def memoryCmd_def
      checkCmd_def restoreCmd_def syncCmd_def timestampCmd_def)

lemma cmd_ends:
  "take 2 (rev (r2SyncCmd mp)) = [CHR 0x22, CHR ''2'']"
  "take 2 (rev localSyncCmd) = [CHR 0x22, CHR ''l'']"
  "take 2 (rev userCmd) = [CHR 0x22, CHR ''r'']"
  "take 2 (rev soulCmd) = [CHR 0x22, CHR ''l'']"
  "take 2 (rev memoryCmd) = [CHR 0x22, CHR ''y'']"
  "take 2 (rev checkCmd) = [CHR 0x22, CHR ''k'']"
  by (simp_all add: r2SyncCmd_def localSyncCmd_def userCmd_def soulCmd_def memoryCmd_def
      checkCmd_def)

lemma closed_cmds_distinct: "distinct [localSyncCmd, userCmd, soulCmd, memoryCmd, checkCmd]"
  by (simp add: localSyncCmd_def userCmd_def soulCmd_def memoryCmd_def checkCmd_def)

lemma r2SyncCmd_neq:
  "r2SyncCmd mp \<noteq> localSyncCmd" "r2SyncCmd mp \<noteq> userCmd" "r2SyncCmd mp \<noteq> soulCmd"
  "r2SyncCmd mp \<noteq> memoryCmd" "r2SyncCmd mp \<noteq> checkCmd"
  using cmd_ends(1) [of mp] cmd_ends(2-6) by auto

lemma head_neq: "hd a \<noteq> hd b \<Longrightarrow> a \<noteq> b"
  by auto

lemma cmds_distinct:
  "distinct [r2SyncCmd mp, localSyncCmd, userCmd, soulCmd, memoryCmd, restoreCmd mp, checkCmd,
     syncCmd mp, timestampCmd mp]"
  using closed_cmds_distinct r2SyncCmd_neq [of mp]
  by (simp add: head_neq cmd_heads)

subsection \<open>Each block, as a function of the answers of the sandbox\<close>

lemma probe_eq:
  "probe sb cmd w =
     (case start_outcome sb cmd of
        Inl e \<Rightarrow> (Inr False, [StartProcess cmd])
      | Inr p \<Rightarrow>
         (case await_outcome p 5000 of
            Some e \<Rightarrow> (Inr False, [StartProcess cmd, WaitForProcess cmd 5000])
          | None \<Rightarrow>
             (case logs_outcome p of
                Inl e \<Rightarrow> (Inr False, [StartProcess cmd, WaitForProcess cmd 5000, GetLogs cmd])
              | Inr l \<Rightarrow> (Inr (opt_includes (stdout l) w),
                           [StartProcess cmd, WaitForProcess cmd 5000, GetLogs cmd]))))"
  by (simp add: probe_def startProcess_def waitForProcess_def getLogs_def io_ret_def
      split: sum.splits option.splits)

lemma probe_returns: "probe sb cmd w = (Inr (flag sb cmd w), calls (probe sb cmd w))"
  by (auto simp: flag_def returns_def calls_def probe_eq split: sum.splits option.splits)

lemma flag_eq:
  "flag sb cmd w =
     (case run_logs sb cmd 5000 of Inl e \<Rightarrow> False | Inr l \<Rightarrow> opt_includes (stdout l) w)"
  by (auto simp: flag_def returns_def run_logs_def probe_eq split: sum.splits option.splits)

lemma probe_calls_about: "c \<in> set (calls (probe sb cmd w)) \<Longrightarrow> call_cmd c = Some cmd"
  by (auto simp: calls_def probe_eq split: sum.splits option.splits)

lemma restore_eq:
  "restore mp sb =
     (case run_outcome sb (restoreCmd mp) 30000 of
        Some e \<Rightarrow> Inr (Some \<lparr>success = False, lastSync = None, error = Some ''Restore failed'',
                    details = Some (error_details e)\<rparr>)
      | None \<Rightarrow> Inr None,
      calls (restore mp sb))"
  by (simp add: restore_def run_outcome_def calls_def startProcess_def waitForProcess_def
      io_ret_def split: sum.splits option.splits)

lemma restore_calls:
  "\<exists>rest. calls (restore mp sb) = StartProcess (restoreCmd mp) # rest"
  "c \<in> set (calls (restore mp sb)) \<Longrightarrow> call_cmd c = Some (restoreCmd mp)"
  by (auto simp: restore_def calls_def startProcess_def waitForProcess_def
      io_ret_def io_bind_def io_try_def split: sum.splits option.splits if_splits)

lemma verify_source_eq:
  "verify_source sb =
     (case run_logs sb checkCmd 5000 of
        Inl e \<Rightarrow> Inr (Some \<lparr>success = False, lastSync = None,
                    error = Some ''Failed to verify source files'',
                    details = Some (error_details e)\<rparr>)
      | Inr l \<Rightarrow>
          Inr (if \<not> opt_includes (stdout l) ''ok''
               then Some \<lparr>success = False, lastSync = None,
                      error = Some ''Sync aborted: source missing clawdbot.json'',
                      details = Some ''The local config directory is missing critical files. This could indicate corruption or an incomplete setup.''\<rparr>
               else None),
      calls (verify_source sb))"
  by (simp add: verify_source_def run_logs_def calls_def startProcess_def waitForProcess_def
      getLogs_def io_ret_def split: sum.splits option.splits)

lemma verify_source_calls:
  "\<exists>rest. calls (verify_source sb) = StartProcess checkCmd # rest"
  "c \<in> set (calls (verify_source sb)) \<Longrightarrow> call_cmd c = Some checkCmd"
  by (auto simp: verify_source_def calls_def startProcess_def waitForProcess_def
      getLogs_def io_ret_def io_bind_def io_try_def split: sum.splits option.splits if_splits)

lemma push_eq:
  "push mp sb =
     (case run_outcome sb (syncCmd mp) 30000 of
        Some e \<Rightarrow> Inr \<lparr>success = False, lastSync = None, error = Some ''Sync error'',
                    details = Some (error_details e)\<rparr>
      | None \<Rightarrow>
         (case run_logs sb (timestampCmd mp) 5000 of
            Inl e \<Rightarrow> Inr \<lparr>success = False, lastSync = None, error = Some ''Sync error'',
                       details = Some (error_details e)\<rparr>
          | Inr tlogs \<Rightarrow>
              if date_prefixed (map_option trim (stdout tlogs))
              then Inr \<lparr>success = True, lastSync = map_option trim (stdout tlogs),
                     error = None, details = None\<rparr>
              else
                (case process_logs sb (syncCmd mp) of
                   Inl e \<Rightarrow> Inr \<lparr>success = False, lastSync = None, error = Some ''Sync error'',
                              details = Some (error_details e)\<rparr>
                 | Inr logs \<Rightarrow> Inr \<lparr>success = False, lastSync = None,
                      error = Some ''Sync failed'',
                      details = or_else (stderr logs)
                        (or_else (stdout logs) (Some ''No timestamp file created''))\<rparr>)),
      calls (push mp sb))"
  by (simp add: push_def run_outcome_def run_logs_def process_logs_def calls_def startProcess_def
      waitForProcess_def getLogs_def io_ret_def Let_def split: sum.splits option.splits)

lemma push_calls:
  "\<exists>rest. calls (push mp sb) = StartProcess (syncCmd mp) # rest"
  "c \<in> set (calls (push mp sb)) \<Longrightarrow>
     call_cmd c = Some (syncCmd mp) \<or> call_cmd c = Some (timestampCmd mp)"
  by (auto simp: push_def calls_def startProcess_def waitForProcess_def
      getLogs_def io_ret_def io_bind_def io_try_def Let_def split: sum.splits option.splits if_splits)

lemma push_rereads:
  "GetLogs (timestampCmd mp) \<in> set (calls (push mp sb)) \<longleftrightarrow>
     run_outcome sb (syncCmd mp) 30000 = None \<and> run_outcome sb (timestampCmd mp) 5000 = None"
  using cmds_distinct [of mp]
  by (auto simp: push_def calls_def run_outcome_def startProcess_def waitForProcess_def
      getLogs_def io_ret_def io_bind_def io_try_def Let_def split: sum.splits option.splits if_splits)

subsection \<open>The function, as a function of the answers of the sandbox\<close>

lemma probe_calls_about_five:
  "c \<in> set (probe_calls mp sb) \<Longrightarrow>
     call_cmd c \<in> {Some (r2SyncCmd mp), Some localSyncCmd, Some userCmd, Some soulCmd,
       Some memoryCmd}"
  by (auto simp: probe_calls_def dest: probe_calls_about)

lemma verify_and_push_eq:
  "verify_and_push mp sb =
     (case run_logs sb checkCmd 5000 of
        Inl e \<Rightarrow> (Inr \<lparr>success = False, lastSync = None,
                    error = Some ''Failed to verify source files'',
                    details = Some (error_details e)\<rparr>, calls (verify_source sb))
      | Inr l \<Rightarrow>
          if \<not> opt_includes (stdout l) ''ok''
          then (Inr \<lparr>success = False, lastSync = None,
                  error = Some ''Sync aborted: source missing clawdbot.json'',
                  details = Some ''The local config directory is missing critical files. This could indicate corruption or an incomplete setup.''\<rparr>,
                calls (verify_source sb))
          else (fst (push mp sb), calls (verify_source sb) @ calls (push mp sb)))"
  unfolding verify_and_push_def
  by (subst verify_source_eq) (simp add: calls_def io_ret_def split: sum.splits)

lemma after_probes_eq:
  "after_probes mp sb r l u s m =
     (if r \<and> (\<not> l \<or> \<not> u \<or> \<not> s \<or> \<not> m)
      then (case run_outcome sb (restoreCmd mp) 30000 of
              Some e \<Rightarrow> (Inr \<lparr>success = False, lastSync = None, error = Some ''Restore failed'',
                    details = Some (error_details e)\<rparr>, calls (restore mp sb))
            | None \<Rightarrow> (fst (verify_and_push mp sb),
                       calls (restore mp sb) @ calls (verify_and_push mp sb)))
      else verify_and_push mp sb)"
  unfolding after_probes_def
  by (subst restore_eq) (auto simp: calls_def io_ret_def split: option.splits)

lemma syncToR2_eq:
  "syncToR2 mp sb env =
    (if \<not> truthy (R2_ACCESS_KEY_ID env) \<or> \<not> truthy (R2_SECRET_ACCESS_KEY env)
         \<or> \<not> truthy (CF_ACCOUNT_ID env)
     then (Inr \<lparr>success = False, lastSync = None,
             error = Some ''R2 storage is not configured'', details = None\<rparr>, [])
     else if \<not> mount_outcome sb env
     then (Inr \<lparr>success = False, lastSync = None,
               error = Some ''Failed to mount R2 storage'', details = None\<rparr>, [Mount])
     else (fst (after_probes mp sb (flag sb (r2SyncCmd mp) ''r2'') (flag sb localSyncCmd ''local'')
                 (flag sb userCmd ''user'') (flag sb soulCmd ''soul'') (flag sb memoryCmd ''memory'')),
           Mount # probe_calls mp sb @
           calls (after_probes mp sb (flag sb (r2SyncCmd mp) ''r2'') (flag sb localSyncCmd ''local'')
                 (flag sb userCmd ''user'') (flag sb soulCmd ''soul'') (flag sb memoryCmd ''memory''))))"
  unfolding syncToR2_def mountR2Storage_def probe_calls_def
  apply (subst (1 2 3 4 5) probe_returns)
  apply (simp add: io_ret_def calls_def del: truthy.simps)
  done

text \<open>The six ways through \<open>syncToR2\<close>, with the result and the calls of each.\<close>

lemma sync_cases [case_names not_configured mount_failed restore_failed verify_failed
    source_missing pushed]:
  obtains
    "\<not> truthy (R2_ACCESS_KEY_ID env) \<or> \<not> truthy (R2_SECRET_ACCESS_KEY env)
       \<or> \<not> truthy (CF_ACCOUNT_ID env)"
    "syncToR2 mp sb env =
       (Inr \<lparr>success = False, lastSync = None,
          error = Some ''R2 storage is not configured'', details = None\<rparr>, [])"
  | "truthy (R2_ACCESS_KEY_ID env)" "truthy (R2_SECRET_ACCESS_KEY env)"
    "truthy (CF_ACCOUNT_ID env)" "\<not> mount_outcome sb env"
    "syncToR2 mp sb env =
       (Inr \<lparr>success = False, lastSync = None,
          error = Some ''Failed to mount R2 storage'', details = None\<rparr>, [Mount])"
  | e where
    "truthy (R2_ACCESS_KEY_ID env)" "truthy (R2_SECRET_ACCESS_KEY env)"
    "truthy (CF_ACCOUNT_ID env)" "mount_outcome sb env"
    "restore_needed mp sb" "run_outcome sb (restoreCmd mp) 30000 = Some e"
    "syncToR2 mp sb env =
       (Inr \<lparr>success = False, lastSync = None, error = Some ''Restore failed'',
          details = Some (error_details e)\<rparr>,
        Mount # probe_calls mp sb @ calls (restore mp sb))"
  | e where
    "truthy (R2_ACCESS_KEY_ID env)" "truthy (R2_SECRET_ACCESS_KEY env)"
    "truthy (CF_ACCOUNT_ID env)" "mount_outcome sb env"
    "restore_needed mp sb \<Longrightarrow> run_outcome sb (restoreCmd mp) 30000 = None"
    "run_logs sb checkCmd 5000 = Inl e"
    "syncToR2 mp sb env =
       (Inr \<lparr>success = False, lastSync = None,
          error = Some ''Failed to verify source files'',
          details = Some (error_details e)\<rparr>,
        Mount # probe_calls mp sb
        @ (if restore_needed mp sb then calls (restore mp sb) else [])
        @ calls (verify_source sb))"
  | l where
    "truthy (R2_ACCESS_KEY_ID env)" "truthy (R2_SECRET_ACCESS_KEY env)"
    "truthy (CF_ACCOUNT_ID env)" "mount_outcome sb env"
    "restore_needed mp sb \<Longrightarrow> run_outcome sb (restoreCmd mp) 30000 = None"
    "run_logs sb checkCmd 5000 = Inr l" "\<not> opt_includes (stdout l) ''ok''"
    "syncToR2 mp sb env =
       (Inr \<lparr>success = False, lastSync = None,
          error = Some ''Sync aborted: source missing clawdbot.json'',
          details = Some ''The local config directory is missing critical files. This could indicate corruption or an incomplete setup.''\<rparr>,
        Mount # probe_calls mp sb
        @ (if restore_needed mp sb then calls (restore mp sb) else [])
        @ calls (verify_source sb))"
  | l where
    "truthy (R2_ACCESS_KEY_ID env)" "truthy (R2_SECRET_ACCESS_KEY env)"
    "truthy (CF_ACCOUNT_ID env)" "mount_outcome sb env"
    "restore_needed mp sb \<Longrightarrow> run_outcome sb (restoreCmd mp) 30000 = None"
    "run_logs sb checkCmd 5000 = Inr l" "opt_includes (stdout l) ''ok''"
    "syncToR2 mp sb env =
       (fst (push mp sb),
        Mount # probe_calls mp sb
        @ (if restore_needed mp sb then calls (restore mp sb) else [])
        @ calls (verify_source sb) @ calls (push mp sb))"
proof -
  let ?cfg = "truthy (R2_ACCESS_KEY_ID env) \<and> truthy (R2_SECRET_ACCESS_KEY env)
       \<and> truthy (CF_ACCOUNT_ID env)"
  show thesis
  proof (cases "?cfg")
    case False
    then show thesis
      using that(1) by (simp add: syncToR2_eq del: truthy.simps)
  next
    case cfg: True
    show thesis
    proof (cases "mount_outcome sb env")
      case False
      then show thesis
        using that(2) cfg by (simp add: syncToR2_eq del: truthy.simps)
    next
      case mounted: True
      have sync: "syncToR2 mp sb env =
          (if restore_needed mp sb
           then (case run_outcome sb (restoreCmd mp) 30000 of
              Some e \<Rightarrow> (Inr \<lparr>success = False, lastSync = None, error = Some ''Restore failed'',
                    details = Some (error_details e)\<rparr>,
                    Mount # probe_calls mp sb @ calls (restore mp sb))
            | None \<Rightarrow> (fst (verify_and_push mp sb),
                       Mount # probe_calls mp sb @ calls (restore mp sb)
                       @ calls (verify_and_push mp sb)))
           else (fst (verify_and_push mp sb),
                 Mount # probe_calls mp sb @ calls (verify_and_push mp sb)))"
        using cfg mounted
        by (auto simp: syncToR2_eq after_probes_eq restore_needed_def calls_def
            split: option.splits simp del: truthy.simps)
      show thesis
      proof (cases "restore_needed mp sb \<and> run_outcome sb (restoreCmd mp) 30000 \<noteq> None")
        case True
        then obtain e where "run_outcome sb (restoreCmd mp) 30000 = Some e"
          by auto
        with True show thesis
          using that(3) [of e] cfg mounted sync by simp
      next
        case False
        then have ok: "restore_needed mp sb \<Longrightarrow> run_outcome sb (restoreCmd mp) 30000 = None"
          by simp
        have sync': "syncToR2 mp sb env =
            (fst (verify_and_push mp sb),
             Mount # probe_calls mp sb
             @ (if restore_needed mp sb then calls (restore mp sb) else [])
             @ calls (verify_and_push mp sb))"
          using sync ok by simp
        show thesis
        proof (cases "run_logs sb checkCmd 5000")
          case (Inl e)
          then show thesis
            using that(4) [of e] cfg mounted ok sync'
            by (simp add: verify_and_push_eq calls_def)
        next
          case (Inr l)
          show thesis
          proof (cases "opt_includes (stdout l) ''ok''")
            case True
            then show thesis
              using that(6) [of l] cfg mounted ok sync' Inr
              by (simp add: verify_and_push_eq calls_def)
          next
            case False
            then show thesis
              using that(5) [of l] cfg mounted ok sync' Inr
              by (simp add: verify_and_push_eq calls_def)
          qed
        qed
      qed
    qed
  qed
qed

lemma push_returns: "\<exists>r. fst (push mp sb) = Inr r"
  by (subst push_eq) (simp split: option.splits sum.splits)

lemma never_pushed_before:
  "StartProcess (syncCmd mp) \<notin> set (Mount # probe_calls mp sb
     @ (if b then calls (restore mp sb) else []) @ calls (verify_source sb))"
  using cmds_distinct [of mp]
  by (auto dest!: probe_calls_about_five restore_calls(2) verify_source_calls(2))

lemma guard_not_started_before:
  "StartProcess checkCmd \<notin> set (Mount # probe_calls mp sb @ calls (restore mp sb))"
  using cmds_distinct [of mp]
  by (auto dest!: probe_calls_about_five restore_calls(2))

lemma restore_not_started_elsewhere:
  "StartProcess (restoreCmd mp) \<notin> set (Mount # probe_calls mp sb @ calls (verify_source sb)
     @ calls (push mp sb))"
  using cmds_distinct [of mp]
  by (auto dest!: probe_calls_about_five verify_source_calls(2) push_calls(2))

lemma push_well_shaped: "fst (push mp sb) = Inr r \<Longrightarrow> well_shaped r"
  by (subst (asm) push_eq)
     (auto simp: well_shaped_def date_prefixed_def split: option.splits sum.splits if_splits)

lemma guard_started_iff:
  "StartProcess checkCmd \<in> set (calls (syncToR2 mp sb env)) \<longleftrightarrow>
     truthy (R2_ACCESS_KEY_ID env) \<and> truthy (R2_SECRET_ACCESS_KEY env)
     \<and> truthy (CF_ACCOUNT_ID env) \<and> mount_outcome sb env
     \<and> (restore_needed mp sb \<longrightarrow> run_outcome sb (restoreCmd mp) 30000 = None)"
proof (cases rule: sync_cases [of env mp sb])
  case not_configured
  then show ?thesis by (auto simp: calls_def)
next
  case mount_failed
  then show ?thesis by (simp add: calls_def)
next
  case (restore_failed e)
  then show ?thesis
    using guard_not_started_before [of mp sb] by (simp add: calls_def)
next
  case (verify_failed e)
  then show ?thesis
    using verify_source_calls(1) [of sb] by (auto simp: calls_def)
next
  case (source_missing l)
  then show ?thesis
    using verify_source_calls(1) [of sb] by (auto simp: calls_def)
next
  case (pushed l)
  then show ?thesis
    using verify_source_calls(1) [of sb] by (auto simp: calls_def)
qed

lemma restore_started_iff:
  "StartProcess (restoreCmd mp) \<in> set (calls (syncToR2 mp sb env)) \<longleftrightarrow>
     truthy (R2_ACCESS_KEY_ID env) \<and> truthy (R2_SECRET_ACCESS_KEY env)
     \<and> truthy (CF_ACCOUNT_ID env) \<and> mount_outcome sb env \<and> restore_needed mp sb"
proof (cases rule: sync_cases [of env mp sb])
  case not_configured
  then show ?thesis by (auto simp: calls_def)
next
  case mount_failed
  then show ?thesis by (simp add: calls_def)
next
  case (restore_failed e)
  then show ?thesis
    using restore_calls(1) [of mp sb] by (auto simp: calls_def)
next
  case (verify_failed e)
  then show ?thesis
    using restore_calls(1) [of mp sb] restore_not_started_elsewhere [of mp sb]
    by (auto simp: calls_def)
next
  case (source_missing l)
  then show ?thesis
    using restore_calls(1) [of mp sb] restore_not_started_elsewhere [of mp sb]
    by (auto simp: calls_def)
next
  case (pushed l)
  then show ?thesis
    using restore_calls(1) [of mp sb] restore_not_started_elsewhere [of mp sb]
    by (auto simp: calls_def)
qed

lemma push_error_classes:
  "fst (push mp sb) = Inr r \<Longrightarrow>
     error r \<noteq> Some ''Sync aborted: source missing clawdbot.json''
     \<and> error r \<noteq> Some ''Failed to verify source files''"
  by (subst (asm) push_eq) (auto split: option.splits sum.splits if_splits)

subsection \<open>The answers of the example sandboxes\<close>

lemma complete_run_outcome [simp]: "run_outcome complete_sandbox cmd ms = None"
  by (simp add: run_outcome_def complete_sandbox_def finished_def)

lemma complete_run_logs:
  "run_logs complete_sandbox (r2SyncCmd example_mp) ms =
     Inr \<lparr>stdout = Some (''r2'' @ [CHR 0x0A]), stderr = Some []\<rparr>"
  "run_logs complete_sandbox localSyncCmd ms =
     Inr \<lparr>stdout = Some (''local'' @ [CHR 0x0A]), stderr = Some []\<rparr>"
  "run_logs complete_sandbox userCmd ms =
     Inr \<lparr>stdout = Some (''user'' @ [CHR 0x0A]), stderr = Some []\<rparr>"
  "run_logs complete_sandbox soulCmd ms =
     Inr \<lparr>stdout = Some (''soul'' @ [CHR 0x0A]), stderr = Some []\<rparr>"
  "run_logs complete_sandbox memoryCmd ms =
     Inr \<lparr>stdout = Some (''memory'' @ [CHR 0x0A]), stderr = Some []\<rparr>"
  "run_logs complete_sandbox checkCmd ms =
     Inr \<lparr>stdout = Some (''ok'' @ [CHR 0x0A]), stderr = Some []\<rparr>"
  "run_logs complete_sandbox (timestampCmd example_mp) ms =
     Inr \<lparr>stdout = Some (''2026-01-15T10:30:00+00:00'' @ [CHR 0x0A]), stderr = Some []\<rparr>"
  "run_logs complete_sandbox (syncCmd example_mp) ms = Inr \<lparr>stdout = Some [], stderr = Some []\<rparr>"
  using cmds_distinct [of example_mp]
  by (auto simp: run_logs_def complete_sandbox_def finished_def)

lemma run_outcome_answering:
  "run_outcome (answering sb c out) cmd ms =
     (if cmd = c then (case out of Inl e \<Rightarrow> Some e | Inr p \<Rightarrow> await_outcome p ms)
      else run_outcome sb cmd ms)"
  by (simp add: run_outcome_def answering_def)

lemma run_logs_answering:
  "run_logs (answering sb c out) cmd ms =
     (if cmd = c
      then (case out of Inl e \<Rightarrow> Inl e
            | Inr p \<Rightarrow> (case await_outcome p ms of Some e \<Rightarrow> Inl e | None \<Rightarrow> logs_outcome p))
      else run_logs sb cmd ms)"
  by (simp add: run_logs_def answering_def)

lemma process_logs_answering:
  "process_logs (answering sb c out) cmd =
     (if cmd = c then (case out of Inl e \<Rightarrow> Inl e | Inr p \<Rightarrow> logs_outcome p)
      else process_logs sb cmd)"
  by (simp add: process_logs_def answering_def)

lemma mount_outcome_answering [simp]:
  "mount_outcome (answering sb c out) env = mount_outcome sb env"
  by (simp add: answering_def)

lemma complete_mount [simp]: "mount_outcome complete_sandbox env"
  by (simp add: complete_sandbox_def)

lemma example_env_truthy [simp]:
  "truthy (R2_ACCESS_KEY_ID example_env)" "truthy (R2_SECRET_ACCESS_KEY example_env)"
  "truthy (CF_ACCOUNT_ID example_env)"
  by (simp_all add: example_env_def)

lemma complete_flags:
  "flag complete_sandbox (r2SyncCmd example_mp) ''r2''"
  "flag complete_sandbox localSyncCmd ''local''"
  "flag complete_sandbox userCmd ''user''"
  "flag complete_sandbox soulCmd ''soul''"
  "flag complete_sandbox memoryCmd ''memory''"
  by (simp_all add: flag_eq complete_run_logs)

lemma flag_answering:
  "flag (answering sb c out) cmd w =
     (if cmd = c
      then (case out of Inl e \<Rightarrow> False
            | Inr p \<Rightarrow> (case await_outcome p 5000 of Some e \<Rightarrow> False
                | None \<Rightarrow> (case logs_outcome p of Inl e \<Rightarrow> False
                    | Inr l \<Rightarrow> opt_includes (stdout l) w)))
      else flag sb cmd w)"
  by (auto simp: flag_eq run_logs_answering split: sum.splits option.splits)

lemma complete_sync:
  "returns (syncToR2 example_mp complete_sandbox example_env)
     \<lparr>success = True, lastSync = Some ''2026-01-15T10:30:00+00:00'', error = None,
      details = None\<rparr>"
  by (simp add: returns_def syncToR2_eq after_probes_eq verify_and_push_eq complete_flags
      complete_run_logs trim_def white_space_def date_prefixed_def date_re_def digit_def
      del: truthy.simps)
     (subst push_eq, simp add: complete_run_logs trim_def white_space_def date_prefixed_def
      date_re_def digit_def)

lemma probe_answering_flag:
  assumes "run_logs sb cmd 5000 = Inl e" and "w \<noteq> []"
  shows "flag (answering sb cmd (Inr (finished []))) c w = flag sb c w"
proof (cases "c = cmd")
  case True
  have "\<not> flag sb cmd w"
    using assms(1) by (simp add: flag_eq)
  moreover have "\<not> flag (answering sb cmd (Inr (finished []))) cmd w"
    using assms(2) by (simp add: flag_answering finished_def)
  ultimately show ?thesis using True by simp
next
  case False
  then show ?thesis by (simp add: flag_answering)
qed

lemma probe_answering_calls:
  "filter (\<lambda>x. call_cmd x \<noteq> Some cmd) (calls (probe (answering sb cmd out) c w)) =
   filter (\<lambda>x. call_cmd x \<noteq> Some cmd) (calls (probe sb c w))"
proof (cases "c = cmd")
  case True
  then have "filter (\<lambda>x. call_cmd x \<noteq> Some cmd) (calls (probe sb' c w)) = []" for sb'
    by (auto simp: filter_empty_conv dest: probe_calls_about)
  then show ?thesis by simp
next
  case False
  then have "probe (answering sb cmd out) c w = probe sb c w"
    by (simp add: probe_def startProcess_def answering_def)
  then show ?thesis by simp
qed

lemma blocks_answering:
  "cmd \<noteq> restoreCmd mp \<Longrightarrow> restore mp (answering sb cmd out) = restore mp sb"
  "cmd \<noteq> checkCmd \<Longrightarrow> verify_source (answering sb cmd out) = verify_source sb"
  "cmd \<noteq> syncCmd mp \<Longrightarrow> cmd \<noteq> timestampCmd mp \<Longrightarrow>
     push mp (answering sb cmd out) = push mp sb"
  by (simp_all add: restore_def verify_source_def push_def startProcess_def answering_def)

lemma after_probes_answering:
  assumes "cmd \<noteq> restoreCmd mp" and "cmd \<noteq> checkCmd" and "cmd \<noteq> syncCmd mp"
    and "cmd \<noteq> timestampCmd mp"
  shows "after_probes mp (answering sb cmd out) r l u s m = after_probes mp sb r l u s m"
  using assms
  by (auto simp: after_probes_def verify_and_push_def blocks_answering cong: option.case_cong)

lemma probe_fails_False:
  "run_logs sb cmd 5000 = Inl e \<Longrightarrow> returns (probe sb cmd w) False"
  by (auto simp: returns_def run_logs_def probe_eq split: sum.splits option.splits)

lemma probe_words:
  "(cmd, w) \<in> set (probes mp) \<Longrightarrow>
     w \<noteq> [] \<and> cmd \<noteq> restoreCmd mp \<and> cmd \<noteq> checkCmd \<and> cmd \<noteq> syncCmd mp
     \<and> cmd \<noteq> timestampCmd mp"
  using cmds_distinct [of mp] by (auto simp: probes_def)

lemma push_reread_started:
  "StartProcess (timestampCmd mp) \<in> set (calls (push mp sb)) \<longleftrightarrow>
     run_outcome sb (syncCmd mp) 30000 = None"
  using cmds_distinct [of mp]
  by (auto simp: push_def calls_def run_outcome_def startProcess_def waitForProcess_def
      getLogs_def io_ret_def io_bind_def io_try_def Let_def split: sum.splits option.splits if_splits)

lemma reread_not_started_before:
  "StartProcess (timestampCmd mp) \<notin> set (Mount # probe_calls mp sb
     @ (if b then calls (restore mp sb) else []) @ calls (verify_source sb))"
  using cmds_distinct [of mp]
  by (auto dest!: probe_calls_about_five restore_calls(2) verify_source_calls(2))

lemma reread_not_started_restore:
  "StartProcess (timestampCmd mp) \<notin> set (Mount # probe_calls mp sb @ calls (restore mp sb))"
  using reread_not_started_before [of mp sb True] by simp

lemma reread_started_iff:
  "StartProcess (timestampCmd mp) \<in> set (calls (syncToR2 mp sb env)) \<longleftrightarrow>
     truthy (R2_ACCESS_KEY_ID env) \<and> truthy (R2_SECRET_ACCESS_KEY env)
     \<and> truthy (CF_ACCOUNT_ID env) \<and> mount_outcome sb env
     \<and> (restore_needed mp sb \<longrightarrow> run_outcome sb (restoreCmd mp) 30000 = None)
     \<and> (\<exists>l. run_logs sb checkCmd 5000 = Inr l \<and> opt_includes (stdout l) ''ok'')
     \<and> run_outcome sb (syncCmd mp) 30000 = None"
proof (cases rule: sync_cases [of env mp sb])
  case not_configured
  then show ?thesis by (auto simp: calls_def)
next
  case mount_failed
  then show ?thesis by (simp add: calls_def)
next
  case (restore_failed e)
  then show ?thesis
    using reread_not_started_restore [of mp sb] by (simp add: calls_def)
next
  case (verify_failed e)
  then show ?thesis
    using reread_not_started_before [of mp sb "restore_needed mp sb"] by (simp add: calls_def)
next
  case (source_missing l)
  then show ?thesis
    using reread_not_started_before [of mp sb "restore_needed mp sb"] by (simp add: calls_def)
next
  case (pushed l)
  have "StartProcess (timestampCmd mp) \<in> set (calls (syncToR2 mp sb env)) \<longleftrightarrow>
      StartProcess (timestampCmd mp) \<in> set (calls (push mp sb))"
    using pushed(8) reread_not_started_before [of mp sb "restore_needed mp sb"]
    by (auto simp: calls_def)
  then show ?thesis
    using pushed by (auto simp: push_reread_started)
qed

lemma push_calls_order:
  "run_outcome sb (syncCmd mp) 30000 = None \<Longrightarrow>
     \<exists>post. calls (push mp sb) =
       [StartProcess (syncCmd mp), WaitForProcess (syncCmd mp) 30000,
        StartProcess (timestampCmd mp)] @ post"
  by (auto simp: push_def calls_def run_outcome_def startProcess_def waitForProcess_def
      getLogs_def io_ret_def io_bind_def io_try_def Let_def split: sum.splits option.splits if_splits)

lemma example_cmds_neq:
  "r2SyncCmd example_mp \<noteq> localSyncCmd" "r2SyncCmd example_mp \<noteq> userCmd"
  "r2SyncCmd example_mp \<noteq> soulCmd" "r2SyncCmd example_mp \<noteq> memoryCmd"
  "r2SyncCmd example_mp \<noteq> restoreCmd example_mp" "r2SyncCmd example_mp \<noteq> checkCmd"
  "r2SyncCmd example_mp \<noteq> syncCmd example_mp" "r2SyncCmd example_mp \<noteq> timestampCmd example_mp"
  "localSyncCmd \<noteq> userCmd" "localSyncCmd \<noteq> soulCmd" "localSyncCmd \<noteq> memoryCmd"
  "localSyncCmd \<noteq> restoreCmd example_mp" "localSyncCmd \<noteq> checkCmd"
  "localSyncCmd \<noteq> syncCmd example_mp" "localSyncCmd \<noteq> timestampCmd example_mp"
  "userCmd \<noteq> soulCmd" "userCmd \<noteq> memoryCmd" "userCmd \<noteq> restoreCmd example_mp"
  "userCmd \<noteq> checkCmd" "userCmd \<noteq> syncCmd example_mp" "userCmd \<noteq> timestampCmd example_mp"
  "soulCmd \<noteq> memoryCmd" "soulCmd \<noteq> restoreCmd example_mp" "soulCmd \<noteq> checkCmd"
  "soulCmd \<noteq> syncCmd example_mp" "soulCmd \<noteq> timestampCmd example_mp"
  "memoryCmd \<noteq> restoreCmd example_mp" "memoryCmd \<noteq> checkCmd"
  "memoryCmd \<noteq> syncCmd example_mp" "memoryCmd \<noteq> timestampCmd example_mp"
  "restoreCmd example_mp \<noteq> checkCmd" "restoreCmd example_mp \<noteq> syncCmd example_mp"
  "restoreCmd example_mp \<noteq> timestampCmd example_mp"
  "checkCmd \<noteq> syncCmd example_mp" "checkCmd \<noteq> timestampCmd example_mp"
  "syncCmd example_mp \<noteq> timestampCmd example_mp"
  using cmds_distinct [of example_mp] by simp_all

lemma complete_not_needed: "\<not> restore_needed example_mp complete_sandbox"
  by (simp add: restore_needed_def complete_flags)

lemma config_missing_facts:
  "\<not> restore_needed example_mp config_missing_sandbox"
  "mount_outcome config_missing_sandbox env"
  "run_logs config_missing_sandbox checkCmd 5000 = Inr \<lparr>stdout = Some [], stderr = Some []\<rparr>"
  using example_cmds_neq
  by (simp_all add: config_missing_sandbox_def restore_needed_def flag_answering complete_flags
      run_logs_answering finished_def)

lemma check_hangs_facts:
  "\<not> restore_needed example_mp check_hangs_sandbox"
  "mount_outcome check_hangs_sandbox env"
  "run_logs check_hangs_sandbox checkCmd 5000 = Inl (ErrorObject ''timeout'')"
  using example_cmds_neq
  by (simp_all add: check_hangs_sandbox_def restore_needed_def flag_answering complete_flags
      run_logs_answering timed_out_def)

lemma sync_without_restore:
  assumes "truthy (R2_ACCESS_KEY_ID env)" and "truthy (R2_SECRET_ACCESS_KEY env)"
    and "truthy (CF_ACCOUNT_ID env)" and "mount_outcome sb env" and "\<not> restore_needed mp sb"
  shows "syncToR2 mp sb env =
    (fst (verify_and_push mp sb), Mount # probe_calls mp sb @ calls (verify_and_push mp sb))"
  using assms
  by (auto simp: syncToR2_eq after_probes_eq restore_needed_def calls_def simp del: truthy.simps)

lemma check_hangs_sync:
  "returns (syncToR2 example_mp check_hangs_sandbox example_env)
     \<lparr>success = False, lastSync = None, error = Some ''Failed to verify source files'',
      details = Some ''timeout''\<rparr>"
  by (simp add: returns_def sync_without_restore verify_and_push_eq check_hangs_facts
      del: truthy.simps)

lemma user_missing_needed:
  "restore_needed example_mp user_missing_sandbox"
  "restore_needed example_mp restore_hangs_sandbox"
  using example_cmds_neq
  by (simp_all add: restore_hangs_sandbox_def user_missing_sandbox_def restore_needed_def
      flag_answering complete_flags finished_def)

lemma restore_hangs_facts:
  "mount_outcome restore_hangs_sandbox env"
  "run_outcome restore_hangs_sandbox (restoreCmd example_mp) 30000 = Some (ErrorObject ''timeout'')"
  by (simp_all add: restore_hangs_sandbox_def user_missing_sandbox_def run_outcome_answering
      timed_out_def)

lemma complete_reread_started:
  "StartProcess (timestampCmd example_mp)
     \<in> set (calls (syncToR2 example_mp complete_sandbox example_env))"
  by (simp add: reread_started_iff complete_not_needed complete_run_logs del: truthy.simps)

lemma calls_pair: "calls (x, t) = t"
  by (simp add: calls_def)

lemma calls_when_run:
  "run_logs sb cmd 5000 = Inr l \<Longrightarrow>
     calls (probe sb cmd w) = [StartProcess cmd, WaitForProcess cmd 5000, GetLogs cmd]"
  "run_logs sb checkCmd 5000 = Inr l \<Longrightarrow>
     calls (verify_source sb) =
       [StartProcess checkCmd, WaitForProcess checkCmd 5000, GetLogs checkCmd]"
  "run_outcome sb (restoreCmd mp) 30000 = None \<Longrightarrow>
     calls (restore mp sb) =
       [StartProcess (restoreCmd mp), WaitForProcess (restoreCmd mp) 30000]"
  by (auto simp: calls_def run_logs_def run_outcome_def probe_def verify_source_def restore_def
      startProcess_def waitForProcess_def getLogs_def io_ret_def io_bind_def io_try_def
      split: sum.splits option.splits if_splits)

lemma push_calls_when_run:
  "run_outcome sb (syncCmd mp) 30000 = None \<Longrightarrow>
   run_logs sb (timestampCmd mp) 5000 = Inr tlogs \<Longrightarrow>
     calls (push mp sb) =
       [StartProcess (syncCmd mp), WaitForProcess (syncCmd mp) 30000,
        StartProcess (timestampCmd mp), WaitForProcess (timestampCmd mp) 5000,
        GetLogs (timestampCmd mp)]
       @ (if date_prefixed (map_option trim (stdout tlogs)) then []
          else [GetLogs (syncCmd mp)])"
  by (auto simp: calls_def run_logs_def run_outcome_def push_def
      startProcess_def waitForProcess_def getLogs_def io_ret_def io_bind_def io_try_def Let_def
      split: sum.splits option.splits if_splits)

lemma sync_with_restore:
  assumes "truthy (R2_ACCESS_KEY_ID env)" and "truthy (R2_SECRET_ACCESS_KEY env)"
    and "truthy (CF_ACCOUNT_ID env)" and "mount_outcome sb env" and "restore_needed mp sb"
    and "run_outcome sb (restoreCmd mp) 30000 = None"
  shows "syncToR2 mp sb env =
    (fst (verify_and_push mp sb),
     Mount # probe_calls mp sb @ calls (restore mp sb) @ calls (verify_and_push mp sb))"
  using assms
  by (auto simp: syncToR2_eq after_probes_eq restore_needed_def calls_def simp del: truthy.simps)

lemma complete_probe_calls:
  "probe_calls example_mp complete_sandbox =
     [StartProcess (r2SyncCmd example_mp), WaitForProcess (r2SyncCmd example_mp) 5000,
      GetLogs (r2SyncCmd example_mp),
      StartProcess localSyncCmd, WaitForProcess localSyncCmd 5000, GetLogs localSyncCmd,
      StartProcess userCmd, WaitForProcess userCmd 5000, GetLogs userCmd,
      StartProcess soulCmd, WaitForProcess soulCmd 5000, GetLogs soulCmd,
      StartProcess memoryCmd, WaitForProcess memoryCmd 5000, GetLogs memoryCmd]"
  by (simp add: probe_calls_def calls_when_run(1) [OF complete_run_logs(1)]
      calls_when_run(1) [OF complete_run_logs(2)] calls_when_run(1) [OF complete_run_logs(3)]
      calls_when_run(1) [OF complete_run_logs(4)] calls_when_run(1) [OF complete_run_logs(5)])

lemma complete_push:
  "push example_mp complete_sandbox =
     (Inr \<lparr>success = True, lastSync = Some ''2026-01-15T10:30:00+00:00'', error = None,
        details = None\<rparr>,
      [StartProcess (syncCmd example_mp), WaitForProcess (syncCmd example_mp) 30000,
       StartProcess (timestampCmd example_mp), WaitForProcess (timestampCmd example_mp) 5000,
       GetLogs (timestampCmd example_mp)])"
  by (subst push_eq)
     (simp add: push_calls_when_run [OF complete_run_outcome complete_run_logs(7)]
      complete_run_logs trim_def white_space_def date_prefixed_def date_re_def digit_def)

lemma complete_calls:
  "calls (syncToR2 example_mp complete_sandbox example_env) =
     [Mount,
      StartProcess (r2SyncCmd example_mp), WaitForProcess (r2SyncCmd example_mp) 5000,
      GetLogs (r2SyncCmd example_mp),
      StartProcess localSyncCmd, WaitForProcess localSyncCmd 5000, GetLogs localSyncCmd,
      StartProcess userCmd, WaitForProcess userCmd 5000, GetLogs userCmd,
      StartProcess soulCmd, WaitForProcess soulCmd 5000, GetLogs soulCmd,
      StartProcess memoryCmd, WaitForProcess memoryCmd 5000, GetLogs memoryCmd,
      StartProcess checkCmd, WaitForProcess checkCmd 5000, GetLogs checkCmd,
      StartProcess (syncCmd example_mp), WaitForProcess (syncCmd example_mp) 30000,
      StartProcess (timestampCmd example_mp), WaitForProcess (timestampCmd example_mp) 5000,
      GetLogs (timestampCmd example_mp)]"
  by (simp add: sync_without_restore complete_not_needed verify_and_push_eq
      complete_run_logs(6) complete_probe_calls complete_push
      calls_when_run(2) [OF complete_run_logs(6)] del: truthy.simps)
     (simp add: calls_def)

lemma logs_lost_facts:
  "\<not> restore_needed example_mp logs_lost_sandbox"
  "mount_outcome logs_lost_sandbox env"
  "run_logs logs_lost_sandbox checkCmd 5000 =
     Inr \<lparr>stdout = Some (''ok'' @ [CHR 0x0A]), stderr = Some []\<rparr>"
  "run_outcome logs_lost_sandbox (syncCmd example_mp) 30000 = None"
  "run_logs logs_lost_sandbox (timestampCmd example_mp) 5000 =
     Inr \<lparr>stdout = Some [], stderr = Some []\<rparr>"
  "process_logs logs_lost_sandbox (syncCmd example_mp) = Inl (ErrorObject ''logs unavailable'')"
  using example_cmds_neq
  by (simp_all add: logs_lost_sandbox_def restore_needed_def flag_answering complete_flags
      run_logs_answering run_outcome_answering process_logs_answering complete_run_logs
      finished_def logs_lost_def)

lemma logs_lost_probe_calls:
  "probe_calls example_mp logs_lost_sandbox = probe_calls example_mp complete_sandbox"
  using example_cmds_neq
  by (simp add: probe_calls_def logs_lost_sandbox_def probe_def startProcess_def answering_def)

lemma logs_lost_push:
  "push example_mp logs_lost_sandbox =
     (Inr \<lparr>success = False, lastSync = None, error = Some ''Sync error'',
        details = Some ''logs unavailable''\<rparr>,
      [StartProcess (syncCmd example_mp), WaitForProcess (syncCmd example_mp) 30000,
       StartProcess (timestampCmd example_mp), WaitForProcess (timestampCmd example_mp) 5000,
       GetLogs (timestampCmd example_mp), GetLogs (syncCmd example_mp)])"
  by (subst push_eq)
     (simp add: push_calls_when_run [OF logs_lost_facts(4) logs_lost_facts(5)]
      logs_lost_facts trim_def date_prefixed_def)

lemma restore_fails_facts:
  "restore_needed example_mp restore_fails_sandbox"
  "mount_outcome restore_fails_sandbox env"
  "run_outcome restore_fails_sandbox (restoreCmd example_mp) 30000 = None"
  "run_logs restore_fails_sandbox (r2SyncCmd example_mp) 5000 =
     Inr \<lparr>stdout = Some (''r2'' @ [CHR 0x0A]), stderr = Some []\<rparr>"
  "run_logs restore_fails_sandbox localSyncCmd 5000 =
     Inr \<lparr>stdout = Some (''local'' @ [CHR 0x0A]), stderr = Some []\<rparr>"
  "run_logs restore_fails_sandbox userCmd 5000 = Inr \<lparr>stdout = Some [], stderr = Some []\<rparr>"
  "run_logs restore_fails_sandbox soulCmd 5000 =
     Inr \<lparr>stdout = Some (''soul'' @ [CHR 0x0A]), stderr = Some []\<rparr>"
  "run_logs restore_fails_sandbox memoryCmd 5000 =
     Inr \<lparr>stdout = Some (''memory'' @ [CHR 0x0A]), stderr = Some []\<rparr>"
  "run_logs restore_fails_sandbox checkCmd 5000 =
     Inr \<lparr>stdout = Some (''ok'' @ [CHR 0x0A]), stderr = Some []\<rparr>"
  "run_outcome restore_fails_sandbox (syncCmd example_mp) 30000 = None"
  "run_logs restore_fails_sandbox (timestampCmd example_mp) 5000 =
     Inr \<lparr>stdout = Some (''2026-01-15T10:30:00+00:00'' @ [CHR 0x0A]), stderr = Some []\<rparr>"
  using example_cmds_neq
  by (simp_all add: restore_fails_sandbox_def user_missing_sandbox_def restore_needed_def
      flag_answering complete_flags run_logs_answering run_outcome_answering complete_run_logs
      finished_def exited_with_error_def)

lemma restore_fails_start:
  "start_outcome restore_fails_sandbox (restoreCmd example_mp) = Inr exited_with_error"
  by (simp add: restore_fails_sandbox_def answering_def)

lemma restore_fails_push:
  "push example_mp restore_fails_sandbox =
     (Inr \<lparr>success = True, lastSync = Some ''2026-01-15T10:30:00+00:00'', error = None,
        details = None\<rparr>,
      [StartProcess (syncCmd example_mp), WaitForProcess (syncCmd example_mp) 30000,
       StartProcess (timestampCmd example_mp), WaitForProcess (timestampCmd example_mp) 5000,
       GetLogs (timestampCmd example_mp)])"
  by (subst push_eq)
     (simp add: push_calls_when_run [OF restore_fails_facts(10) restore_fails_facts(11)]
      restore_fails_facts trim_def white_space_def date_prefixed_def date_re_def digit_def)

lemma probe_hangs_facts:
  "run_logs probe_hangs_sandbox localSyncCmd 5000 = Inl (ErrorObject ''timeout'')"
  by (simp add: probe_hangs_sandbox_def run_logs_answering timed_out_def)

section \<open>The claims\<close>

subsection \<open>C1\<close>

text \<open>
  Claim C1. When the sanity check runs to its end and its standard output does not include
  \<open>ok\<close> (the primary config file /root/.clawdbot/clawdbot.json is missing), the push
  command is never started, whatever the sandbox answers to every other command, the
  restore included; and when the check was started, \<open>syncToR2\<close> returns the failure
  "Sync aborted: source missing clawdbot.json".
\<close>

theorem missing_config_never_pushed:
  assumes "run_logs sb checkCmd 5000 = Inr l" and "\<not> opt_includes (stdout l) ''ok''"
  shows "StartProcess (syncCmd mp) \<notin> set (calls (syncToR2 mp sb env))
    \<and> (StartProcess checkCmd \<in> set (calls (syncToR2 mp sb env)) \<longrightarrow>
         returns (syncToR2 mp sb env)
           \<lparr>success = False, lastSync = None,
            error = Some ''Sync aborted: source missing clawdbot.json'',
            details = Some ''The local config directory is missing critical files. This could indicate corruption or an incomplete setup.''\<rparr>)"
proof (cases rule: sync_cases [of env mp sb])
  case not_configured
  then show ?thesis by (simp add: calls_def)
next
  case mount_failed
  then show ?thesis by (simp add: calls_def)
next
  case (restore_failed e)
  then show ?thesis
    using never_pushed_before [of mp sb True] guard_not_started_before [of mp sb]
    by (simp add: calls_def)
next
  case (verify_failed e)
  then show ?thesis using assms by simp
next
  case (source_missing l')
  then show ?thesis
    using never_pushed_before [of mp sb "restore_needed mp sb"]
    by (simp add: calls_def returns_def)
next
  case (pushed l')
  then show ?thesis using assms by simp
qed

theorem missing_config_never_pushed_witness:
  "run_logs config_missing_sandbox checkCmd 5000 = Inr \<lparr>stdout = Some [], stderr = Some []\<rparr>
   \<and> \<not> opt_includes (Some []) ''ok''
   \<and> StartProcess checkCmd \<in> set (calls (syncToR2 example_mp config_missing_sandbox example_env))
   \<and> StartProcess (syncCmd example_mp)
       \<notin> set (calls (syncToR2 example_mp config_missing_sandbox example_env))
   \<and> returns (syncToR2 example_mp config_missing_sandbox example_env)
       \<lparr>success = False, lastSync = None,
        error = Some ''Sync aborted: source missing clawdbot.json'',
        details = Some ''The local config directory is missing critical files. This could indicate corruption or an incomplete setup.''\<rparr>"
proof -
  have started: "StartProcess checkCmd
      \<in> set (calls (syncToR2 example_mp config_missing_sandbox example_env))"
    by (simp add: guard_started_iff config_missing_facts del: truthy.simps)
  show ?thesis
    using missing_config_never_pushed [of config_missing_sandbox
        "\<lparr>stdout = Some [], stderr = Some []\<rparr>" example_mp example_env]
      started config_missing_facts(3)
    by simp
qed

subsection \<open>C2\<close>

text \<open>
  Claim C2. When one of the three credentials is absent from the environment, \<open>syncToR2\<close>
  returns the failure "R2 storage is not configured" and has issued no call at all: no
  mount and no command.
\<close>

theorem not_configured_no_calls:
  assumes "R2_ACCESS_KEY_ID env = None \<or> R2_SECRET_ACCESS_KEY env = None
    \<or> CF_ACCOUNT_ID env = None"
  shows "returns (syncToR2 mp sb env)
           \<lparr>success = False, lastSync = None, error = Some ''R2 storage is not configured'',
            details = None\<rparr>
         \<and> calls (syncToR2 mp sb env) = []"
  using assms by (auto simp: syncToR2_def returns_def calls_def)

theorem not_configured_no_calls_witness:
  "CF_ACCOUNT_ID (example_env\<lparr>CF_ACCOUNT_ID := None\<rparr>) = None
   \<and> returns (syncToR2 example_mp complete_sandbox (example_env\<lparr>CF_ACCOUNT_ID := None\<rparr>))
       \<lparr>success = False, lastSync = None, error = Some ''R2 storage is not configured'',
        details = None\<rparr>
   \<and> calls (syncToR2 example_mp complete_sandbox (example_env\<lparr>CF_ACCOUNT_ID := None\<rparr>)) = []"
  using not_configured_no_calls [of "example_env\<lparr>CF_ACCOUNT_ID := None\<rparr>" example_mp
      complete_sandbox]
  by simp

subsection \<open>C3\<close>

text \<open>
  Claim C3. Once the credentials are there and the mount succeeded, the restore command is
  started if and only if the probe of the remote marker gave true and one of the four local
  probes gave false. The call that follows the calls of the five probes is the start of the
  restore in that case, and the start of the sanity check in every other case.
\<close>

theorem restore_trigger:
  assumes "truthy (R2_ACCESS_KEY_ID env)" and "truthy (R2_SECRET_ACCESS_KEY env)"
    and "truthy (CF_ACCOUNT_ID env)" and "mount_outcome sb env"
  shows "(StartProcess (restoreCmd mp) \<in> set (calls (syncToR2 mp sb env)) \<longleftrightarrow>
            restore_needed mp sb)
    \<and> (\<exists>rest. calls (syncToR2 mp sb env) =
          Mount # probe_calls mp sb
          @ StartProcess (if restore_needed mp sb then restoreCmd mp else checkCmd) # rest)"
proof -
  obtain rs where rs: "calls (restore mp sb) = StartProcess (restoreCmd mp) # rs"
    using restore_calls(1) [of mp sb] by blast
  obtain vs where vs: "calls (verify_source sb) = StartProcess checkCmd # vs"
    using verify_source_calls(1) [of sb] by blast
  have "\<exists>rest. calls (syncToR2 mp sb env) =
          Mount # probe_calls mp sb
          @ StartProcess (if restore_needed mp sb then restoreCmd mp else checkCmd) # rest"
  proof (cases rule: sync_cases [of env mp sb])
    case not_configured
    then show ?thesis using assms by simp
  next
    case mount_failed
    then show ?thesis using assms by simp
  qed (simp_all add: calls_def rs [unfolded calls_def] vs [unfolded calls_def])
  then show ?thesis
    using assms by (simp add: restore_started_iff del: truthy.simps)
qed

theorem restore_trigger_witness:
  "restore_needed example_mp user_missing_sandbox
   \<and> StartProcess (restoreCmd example_mp)
       \<in> set (calls (syncToR2 example_mp user_missing_sandbox example_env))
   \<and> (\<exists>rest. calls (syncToR2 example_mp user_missing_sandbox example_env) =
         Mount # probe_calls example_mp user_missing_sandbox
         @ StartProcess (restoreCmd example_mp) # rest)"
  using restore_trigger [of example_env user_missing_sandbox example_mp] user_missing_needed(1)
  by (simp add: user_missing_sandbox_def)

subsection \<open>C4\<close>

text \<open>
  Claim C4, as amended. \<open>syncToR2\<close> returns success if and only if the marker is read again
  after the push and the trimmed output of that read starts with a date; \<open>lastSync\<close> is
  then that trimmed output. The read is after the push: whenever it is started, the push
  command was started and awaited with the timeout of 30000 ms without a throw, and the
  start of the read is the call that follows that await. When the read was started and
  throws, the result is the failure "Sync error". When it gives an output that is
  undefined, empty or without a date at its start, the result is the failure "Sync failed",
  with the error output of the push, else its standard output, else
  "No timestamp file created" as details, provided the logs of the push can be read; when
  reading them throws, the result is "Sync error".
\<close>

theorem confirmation_decides:
  "((\<exists>r. returns (syncToR2 mp sb env) r \<and> success r) \<longleftrightarrow>
      StartProcess (timestampCmd mp) \<in> set (calls (syncToR2 mp sb env))
      \<and> (\<exists>tlogs. run_logs sb (timestampCmd mp) 5000 = Inr tlogs
            \<and> date_prefixed (map_option trim (stdout tlogs))))
   \<and> (StartProcess (timestampCmd mp) \<in> set (calls (syncToR2 mp sb env)) \<longrightarrow>
        run_outcome sb (syncCmd mp) 30000 = None
        \<and> (\<exists>pre post. calls (syncToR2 mp sb env) =
              pre @ [StartProcess (syncCmd mp), WaitForProcess (syncCmd mp) 30000,
                     StartProcess (timestampCmd mp)] @ post)
        \<and> returns (syncToR2 mp sb env)
          (case run_logs sb (timestampCmd mp) 5000 of
             Inl e \<Rightarrow> \<lparr>success = False, lastSync = None, error = Some ''Sync error'',
                       details = Some (error_details e)\<rparr>
           | Inr tlogs \<Rightarrow>
               if date_prefixed (map_option trim (stdout tlogs))
               then \<lparr>success = True, lastSync = map_option trim (stdout tlogs), error = None,
                      details = None\<rparr>
               else
                 (case process_logs sb (syncCmd mp) of
                    Inl e \<Rightarrow> \<lparr>success = False, lastSync = None, error = Some ''Sync error'',
                       details = Some (error_details e)\<rparr>
                  | Inr logs \<Rightarrow> \<lparr>success = False, lastSync = None,
                       error = Some ''Sync failed'',
                       details = or_else (stderr logs)
                         (or_else (stdout logs) (Some ''No timestamp file created''))\<rparr>)))"
proof -
  define started where
    "started \<longleftrightarrow> StartProcess (timestampCmd mp) \<in> set (calls (syncToR2 mp sb env))"
  define ordered where
    "ordered \<longleftrightarrow> (\<exists>pre post. calls (syncToR2 mp sb env) =
        pre @ [StartProcess (syncCmd mp), WaitForProcess (syncCmd mp) 30000,
               StartProcess (timestampCmd mp)] @ post)"
  let ?confirmed = "\<exists>tlogs. run_logs sb (timestampCmd mp) 5000 = Inr tlogs
      \<and> date_prefixed (map_option trim (stdout tlogs))"
  let ?result = "case run_logs sb (timestampCmd mp) 5000 of
       Inl e \<Rightarrow> \<lparr>success = False, lastSync = None, error = Some ''Sync error'',
                 details = Some (error_details e)\<rparr>
     | Inr tlogs \<Rightarrow>
         if date_prefixed (map_option trim (stdout tlogs))
         then \<lparr>success = True, lastSync = map_option trim (stdout tlogs), error = None,
                details = None\<rparr>
         else
           (case process_logs sb (syncCmd mp) of
              Inl e \<Rightarrow> \<lparr>success = False, lastSync = None, error = Some ''Sync error'',
                 details = Some (error_details e)\<rparr>
            | Inr logs \<Rightarrow> \<lparr>success = False, lastSync = None,
                 error = Some ''Sync failed'',
                 details = or_else (stderr logs)
                   (or_else (stdout logs) (Some ''No timestamp file created''))\<rparr>)"
  have "((\<exists>r. returns (syncToR2 mp sb env) r \<and> success r) \<longleftrightarrow> started \<and> ?confirmed)
      \<and> (started \<longrightarrow> run_outcome sb (syncCmd mp) 30000 = None \<and> ordered
            \<and> returns (syncToR2 mp sb env) ?result)"
  proof (cases rule: sync_cases [of env mp sb])
    case not_configured
    from not_configured(1) have "\<not> started"
      by (auto simp: started_def reread_started_iff)
    then show ?thesis
      using not_configured(2) by (simp add: returns_def)
  next
    case mount_failed
    from mount_failed(4) have "\<not> started"
      by (simp add: started_def reread_started_iff)
    then show ?thesis
      using mount_failed(5) by (simp add: returns_def)
  next
    case (restore_failed e)
    from restore_failed(5,6) have "\<not> started"
      by (simp add: started_def reread_started_iff)
    then show ?thesis
      using restore_failed(7) by (simp add: returns_def)
  next
    case (verify_failed e)
    from verify_failed(6) have "\<not> started"
      by (simp add: started_def reread_started_iff)
    then show ?thesis
      using verify_failed(7) by (simp add: returns_def)
  next
    case (source_missing l)
    from source_missing(6,7) have "\<not> started"
      by (simp add: started_def reread_started_iff)
    then show ?thesis
      using source_missing(8) by (simp add: returns_def)
  next
    case (pushed l)
    have started: "started \<longleftrightarrow> run_outcome sb (syncCmd mp) 30000 = None"
      using pushed(1-7) by (auto simp: started_def reread_started_iff)
    have result: "fst (syncToR2 mp sb env) = fst (push mp sb)"
      using pushed(8) by simp
    have order: ordered if run: "run_outcome sb (syncCmd mp) 30000 = None"
    proof -
      obtain post where post: "calls (push mp sb) =
          [StartProcess (syncCmd mp), WaitForProcess (syncCmd mp) 30000,
           StartProcess (timestampCmd mp)] @ post"
        using push_calls_order [OF run] by blast
      have "calls (syncToR2 mp sb env) =
          (Mount # probe_calls mp sb
           @ (if restore_needed mp sb then calls (restore mp sb) else [])
           @ calls (verify_source sb))
          @ [StartProcess (syncCmd mp), WaitForProcess (syncCmd mp) 30000,
             StartProcess (timestampCmd mp)] @ post"
        unfolding pushed(8) post [symmetric] by (simp add: calls_def)
      then show ?thesis
        unfolding ordered_def by blast
    qed
    have "((\<exists>r. fst (push mp sb) = Inr r \<and> success r) \<longleftrightarrow>
            run_outcome sb (syncCmd mp) 30000 = None \<and> ?confirmed)
        \<and> (run_outcome sb (syncCmd mp) 30000 = None \<longrightarrow> fst (push mp sb) = Inr ?result)"
      by (subst (1 2) push_eq) (auto split: option.splits sum.splits)
    then show ?thesis
      unfolding started returns_def result using order by blast
  qed
  then show ?thesis
    unfolding started_def ordered_def .
qed

theorem confirmation_decides_witness:
  "StartProcess (timestampCmd example_mp)
     \<in> set (calls (syncToR2 example_mp complete_sandbox example_env))
   \<and> run_outcome complete_sandbox (syncCmd example_mp) 30000 = None
   \<and> calls (syncToR2 example_mp complete_sandbox example_env) =
       (Mount # probe_calls example_mp complete_sandbox
        @ [StartProcess checkCmd, WaitForProcess checkCmd 5000, GetLogs checkCmd])
       @ [StartProcess (syncCmd example_mp), WaitForProcess (syncCmd example_mp) 30000,
          StartProcess (timestampCmd example_mp)]
       @ [WaitForProcess (timestampCmd example_mp) 5000, GetLogs (timestampCmd example_mp)]
   \<and> run_logs complete_sandbox (timestampCmd example_mp) 5000 =
       Inr \<lparr>stdout = Some (''2026-01-15T10:30:00+00:00'' @ [CHR 0x0A]), stderr = Some []\<rparr>
   \<and> returns (syncToR2 example_mp complete_sandbox example_env)
       \<lparr>success = True, lastSync = Some ''2026-01-15T10:30:00+00:00'', error = None,
        details = None\<rparr>"
  using confirmation_decides [of example_mp complete_sandbox example_env]
    complete_reread_started
  by (simp add: complete_calls complete_probe_calls complete_run_logs trim_def white_space_def
      date_prefixed_def date_re_def digit_def)

text \<open>
  Claim C4 as it was stated fails. Here the push is started and awaited, the marker is read
  again after it and is empty, yet the result is "Sync error" and not "Sync failed",
  because the logs of the push (line 144 of the source, inside the \<open>try\<close> of line 129)
  cannot be read.
\<close>

theorem malformed_marker_counterexample:
  "calls (syncToR2 example_mp logs_lost_sandbox example_env) =
     [Mount,
      StartProcess (r2SyncCmd example_mp), WaitForProcess (r2SyncCmd example_mp) 5000,
      GetLogs (r2SyncCmd example_mp),
      StartProcess localSyncCmd, WaitForProcess localSyncCmd 5000, GetLogs localSyncCmd,
      StartProcess userCmd, WaitForProcess userCmd 5000, GetLogs userCmd,
      StartProcess soulCmd, WaitForProcess soulCmd 5000, GetLogs soulCmd,
      StartProcess memoryCmd, WaitForProcess memoryCmd 5000, GetLogs memoryCmd,
      StartProcess checkCmd, WaitForProcess checkCmd 5000, GetLogs checkCmd,
      StartProcess (syncCmd example_mp), WaitForProcess (syncCmd example_mp) 30000,
      StartProcess (timestampCmd example_mp), WaitForProcess (timestampCmd example_mp) 5000,
      GetLogs (timestampCmd example_mp), GetLogs (syncCmd example_mp)]
   \<and> run_outcome logs_lost_sandbox (syncCmd example_mp) 30000 = None
   \<and> run_logs logs_lost_sandbox (timestampCmd example_mp) 5000 =
       Inr \<lparr>stdout = Some [], stderr = Some []\<rparr>
   \<and> \<not> date_prefixed (map_option trim (Some []))
   \<and> returns (syncToR2 example_mp logs_lost_sandbox example_env)
       \<lparr>success = False, lastSync = None, error = Some ''Sync error'',
        details = Some ''logs unavailable''\<rparr>"
proof -
  have "syncToR2 example_mp logs_lost_sandbox example_env =
      (fst (push example_mp logs_lost_sandbox),
       Mount # probe_calls example_mp logs_lost_sandbox
       @ [StartProcess checkCmd, WaitForProcess checkCmd 5000, GetLogs checkCmd]
       @ calls (push example_mp logs_lost_sandbox))"
    by (simp add: sync_without_restore verify_and_push_eq logs_lost_facts calls_pair
        calls_when_run(2) [OF logs_lost_facts(3)] del: truthy.simps)
  then show ?thesis
    by (simp add: logs_lost_push logs_lost_probe_calls complete_probe_calls logs_lost_facts
        returns_def calls_def trim_def date_prefixed_def)
qed

subsection \<open>C5\<close>

text \<open>
  Claim C5, as amended. When the restore is started and starting it throws, or awaiting it
  with the timeout of 30000 ms throws (which is how exceeding the timeout shows),
  \<open>syncToR2\<close> returns the failure "Restore failed" with the message of the error as
  details. The calls issued are the mount, the probes and the calls of the restore: no call
  is about the sanity check, the push or the reading of the marker.
\<close>

theorem restore_failure_aborts:
  assumes "StartProcess (restoreCmd mp) \<in> set (calls (syncToR2 mp sb env))"
    and "run_outcome sb (restoreCmd mp) 30000 = Some e"
  shows "returns (syncToR2 mp sb env)
           \<lparr>success = False, lastSync = None, error = Some ''Restore failed'',
            details = Some (error_details e)\<rparr>
    \<and> calls (syncToR2 mp sb env) = Mount # probe_calls mp sb @ calls (restore mp sb)
    \<and> (\<forall>c \<in> set (calls (syncToR2 mp sb env)).
          call_cmd c \<noteq> Some checkCmd \<and> call_cmd c \<noteq> Some (syncCmd mp)
          \<and> call_cmd c \<noteq> Some (timestampCmd mp))"
proof -
  from assms(1) have started: "truthy (R2_ACCESS_KEY_ID env)" "truthy (R2_SECRET_ACCESS_KEY env)"
    "truthy (CF_ACCOUNT_ID env)" "mount_outcome sb env" "restore_needed mp sb"
    by (simp_all add: restore_started_iff del: truthy.simps)
  have about: "call_cmd c \<noteq> Some checkCmd \<and> call_cmd c \<noteq> Some (syncCmd mp)
      \<and> call_cmd c \<noteq> Some (timestampCmd mp)"
    if "c \<in> set (Mount # probe_calls mp sb @ calls (restore mp sb))" for c
    using that cmds_distinct [of mp]
    by (auto dest!: probe_calls_about_five restore_calls(2))
  show ?thesis
  proof (cases rule: sync_cases [of env mp sb])
    case (restore_failed e')
    then show ?thesis
      using assms(2) about by (simp add: returns_def calls_def)
  qed (use started assms(2) in simp_all)
qed

theorem restore_failure_aborts_witness:
  "StartProcess (restoreCmd example_mp)
     \<in> set (calls (syncToR2 example_mp restore_hangs_sandbox example_env))
   \<and> run_outcome restore_hangs_sandbox (restoreCmd example_mp) 30000
       = Some (ErrorObject ''timeout'')
   \<and> returns (syncToR2 example_mp restore_hangs_sandbox example_env)
       \<lparr>success = False, lastSync = None, error = Some ''Restore failed'',
        details = Some ''timeout''\<rparr>
   \<and> StartProcess checkCmd
       \<notin> set (calls (syncToR2 example_mp restore_hangs_sandbox example_env))
   \<and> StartProcess (syncCmd example_mp)
       \<notin> set (calls (syncToR2 example_mp restore_hangs_sandbox example_env))"
proof -
  have started: "StartProcess (restoreCmd example_mp)
      \<in> set (calls (syncToR2 example_mp restore_hangs_sandbox example_env))"
    by (simp add: restore_started_iff restore_hangs_facts user_missing_needed del: truthy.simps)
  from restore_failure_aborts [OF started restore_hangs_facts(2)]
  have "returns (syncToR2 example_mp restore_hangs_sandbox example_env)
       \<lparr>success = False, lastSync = None, error = Some ''Restore failed'',
        details = Some ''timeout''\<rparr>"
    and "\<forall>c \<in> set (calls (syncToR2 example_mp restore_hangs_sandbox example_env)).
          call_cmd c \<noteq> Some checkCmd \<and> call_cmd c \<noteq> Some (syncCmd example_mp)
          \<and> call_cmd c \<noteq> Some (timestampCmd example_mp)"
    by simp_all
  then show ?thesis
    using started restore_hangs_facts(2) by fastforce
qed

text \<open>
  Claim C5 as it was stated, for any failure of the restore, fails. Here USER.md is missing,
  so the restore runs; its command ends with exit code 1 and a message on its error output,
  and nothing is thrown. Lines 92-101 of the source read neither the exit code nor the logs
  of the restore process: the sanity check and the push follow, and the result is success.
\<close>

theorem unthrown_restore_failure_counterexample:
  "start_outcome restore_fails_sandbox (restoreCmd example_mp) = Inr exited_with_error
   \<and> exitCode exited_with_error = Some 1
   \<and> logs_outcome exited_with_error = Inr \<lparr>stdout = Some [], stderr = Some ''rsync error''\<rparr>
   \<and> calls (syncToR2 example_mp restore_fails_sandbox example_env) =
     [Mount,
      StartProcess (r2SyncCmd example_mp), WaitForProcess (r2SyncCmd example_mp) 5000,
      GetLogs (r2SyncCmd example_mp),
      StartProcess localSyncCmd, WaitForProcess localSyncCmd 5000, GetLogs localSyncCmd,
      StartProcess userCmd, WaitForProcess userCmd 5000, GetLogs userCmd,
      StartProcess soulCmd, WaitForProcess soulCmd 5000, GetLogs soulCmd,
      StartProcess memoryCmd, WaitForProcess memoryCmd 5000, GetLogs memoryCmd,
      StartProcess (restoreCmd example_mp), WaitForProcess (restoreCmd example_mp) 30000,
      StartProcess checkCmd, WaitForProcess checkCmd 5000, GetLogs checkCmd,
      StartProcess (syncCmd example_mp), WaitForProcess (syncCmd example_mp) 30000,
      StartProcess (timestampCmd example_mp), WaitForProcess (timestampCmd example_mp) 5000,
      GetLogs (timestampCmd example_mp)]
   \<and> returns (syncToR2 example_mp restore_fails_sandbox example_env)
       \<lparr>success = True, lastSync = Some ''2026-01-15T10:30:00+00:00'', error = None,
        details = None\<rparr>"
proof -
  have probes: "probe_calls example_mp restore_fails_sandbox =
     [StartProcess (r2SyncCmd example_mp), WaitForProcess (r2SyncCmd example_mp) 5000,
      GetLogs (r2SyncCmd example_mp),
      StartProcess localSyncCmd, WaitForProcess localSyncCmd 5000, GetLogs localSyncCmd,
      StartProcess userCmd, WaitForProcess userCmd 5000, GetLogs userCmd,
      StartProcess soulCmd, WaitForProcess soulCmd 5000, GetLogs soulCmd,
      StartProcess memoryCmd, WaitForProcess memoryCmd 5000, GetLogs memoryCmd]"
    by (simp add: probe_calls_def calls_when_run(1) [OF restore_fails_facts(4)]
      calls_when_run(1) [OF restore_fails_facts(5)] calls_when_run(1) [OF restore_fails_facts(6)]
      calls_when_run(1) [OF restore_fails_facts(7)] calls_when_run(1) [OF restore_fails_facts(8)])
  have "syncToR2 example_mp restore_fails_sandbox example_env =
      (fst (push example_mp restore_fails_sandbox),
       Mount # probe_calls example_mp restore_fails_sandbox
       @ [StartProcess (restoreCmd example_mp), WaitForProcess (restoreCmd example_mp) 30000]
       @ [StartProcess checkCmd, WaitForProcess checkCmd 5000, GetLogs checkCmd]
       @ calls (push example_mp restore_fails_sandbox))"
    by (simp add: sync_with_restore verify_and_push_eq restore_fails_facts calls_pair
        calls_when_run(2) [OF restore_fails_facts(9)]
        calls_when_run(3) [OF restore_fails_facts(3)] del: truthy.simps)
  then show ?thesis
    by (simp add: restore_fails_push probes restore_fails_start returns_def calls_def
        exited_with_error_def)
qed

subsection \<open>C6\<close>

text \<open>
  Claim C6. For every mount path, sandbox and environment, \<open>syncToR2\<close> returns a result:
  nothing thrown by the sandbox reaches the caller. The mount provider is taken from the
  spec as returning a boolean; its call (line 34) is outside every \<open>try\<close>.
\<close>

theorem syncToR2_never_throws: "\<exists>r. returns (syncToR2 mp sb env) r"
proof (cases rule: sync_cases [of env mp sb])
  case (pushed l)
  then show ?thesis
    using push_returns [of mp sb] by (simp add: returns_def)
qed (simp_all add: returns_def)

theorem syncToR2_never_throws_witness:
  "\<exists>r. returns (syncToR2 example_mp complete_sandbox example_env) r"
  using syncToR2_never_throws [of example_mp complete_sandbox example_env] by simp

subsection \<open>C7\<close>

text \<open>
  Claim C7. When starting the command of one of the five probes, awaiting it with the
  timeout of 5000 ms or reading its logs throws, the probe gives \<open>false\<close> and throws
  nothing, and the sync goes on as if the file were absent: \<open>syncToR2\<close> returns the same
  result, and issues the same calls about every other command, as with a sandbox in which
  that command ends in time and prints nothing.
\<close>

theorem probes_fail_soft:
  assumes "(cmd, w) \<in> set (probes mp)" and "run_logs sb cmd 5000 = Inl e"
  shows "returns (probe sb cmd w) False
    \<and> fst (syncToR2 mp sb env) = fst (syncToR2 mp (answering sb cmd (Inr (finished []))) env)
    \<and> filter (\<lambda>c. call_cmd c \<noteq> Some cmd) (calls (syncToR2 mp sb env)) =
       filter (\<lambda>c. call_cmd c \<noteq> Some cmd)
         (calls (syncToR2 mp (answering sb cmd (Inr (finished []))) env))"
proof -
  let ?sb = "answering sb cmd (Inr (finished []))"
  let ?other = "\<lambda>c. call_cmd c \<noteq> Some cmd"
  from assms(1) have other: "cmd \<noteq> restoreCmd mp" "cmd \<noteq> checkCmd" "cmd \<noteq> syncCmd mp"
    "cmd \<noteq> timestampCmd mp"
    using probe_words by blast+
  have rest: "after_probes mp ?sb r l u s m = after_probes mp sb r l u s m" for r l u s m
    by (rule after_probes_answering [OF other])
  have flags:
    "flag ?sb (r2SyncCmd mp) ''r2'' = flag sb (r2SyncCmd mp) ''r2''"
    "flag ?sb localSyncCmd ''local'' = flag sb localSyncCmd ''local''"
    "flag ?sb userCmd ''user'' = flag sb userCmd ''user''"
    "flag ?sb soulCmd ''soul'' = flag sb soulCmd ''soul''"
    "flag ?sb memoryCmd ''memory'' = flag sb memoryCmd ''memory''"
    by (simp_all add: probe_answering_flag [OF assms(2)])
  have probes: "filter ?other (probe_calls mp ?sb) = filter ?other (probe_calls mp sb)"
    by (simp add: probe_calls_def probe_answering_calls)
  have mount: "mount_outcome ?sb env = mount_outcome sb env"
    by (simp add: answering_def)
  have "returns (probe sb cmd w) False"
    using assms(2) by (rule probe_fails_False)
  moreover have "fst (syncToR2 mp sb env) = fst (syncToR2 mp ?sb env)"
    unfolding syncToR2_eq [of mp ?sb] syncToR2_eq [of mp sb] flags rest mount
    by (simp del: truthy.simps)
  moreover have "filter ?other (calls (syncToR2 mp sb env)) =
      filter ?other (calls (syncToR2 mp ?sb env))"
    unfolding syncToR2_eq [of mp ?sb] syncToR2_eq [of mp sb] flags rest mount
    by (simp add: calls_def probes del: truthy.simps)
  ultimately show ?thesis by simp
qed

theorem probes_fail_soft_witness:
  "(localSyncCmd, ''local'') \<in> set (probes example_mp)
   \<and> run_logs probe_hangs_sandbox localSyncCmd 5000 = Inl (ErrorObject ''timeout'')
   \<and> returns (probe probe_hangs_sandbox localSyncCmd ''local'') False
   \<and> fst (syncToR2 example_mp probe_hangs_sandbox example_env) =
       fst (syncToR2 example_mp
         (answering probe_hangs_sandbox localSyncCmd (Inr (finished []))) example_env)
   \<and> filter (\<lambda>c. call_cmd c \<noteq> Some localSyncCmd)
         (calls (syncToR2 example_mp probe_hangs_sandbox example_env)) =
       filter (\<lambda>c. call_cmd c \<noteq> Some localSyncCmd)
         (calls (syncToR2 example_mp
           (answering probe_hangs_sandbox localSyncCmd (Inr (finished []))) example_env))"
proof -
  have probe: "(localSyncCmd, ''local'') \<in> set (probes example_mp)"
    by (simp add: probes_def)
  show ?thesis
    using probes_fail_soft [OF probe probe_hangs_facts, of example_env] probe probe_hangs_facts
    by simp
qed

subsection \<open>C8\<close>

text \<open>
  Claim C8. When the three credentials are there (defined and not empty, which is what
  line 29 tests) and the mount provider gives \<open>false\<close>, \<open>syncToR2\<close> returns exactly
  success \<open>false\<close> and the error "Failed to mount R2 storage", with no timestamp and no
  details, and the mount is the only call issued.
\<close>

theorem mount_failure_stops:
  assumes "truthy (R2_ACCESS_KEY_ID env)" and "truthy (R2_SECRET_ACCESS_KEY env)"
    and "truthy (CF_ACCOUNT_ID env)" and "\<not> mount_outcome sb env"
  shows "returns (syncToR2 mp sb env)
           \<lparr>success = False, lastSync = None, error = Some ''Failed to mount R2 storage'',
            details = None\<rparr>
         \<and> calls (syncToR2 mp sb env) = [Mount]"
  using assms by (simp add: syncToR2_eq returns_def calls_def del: truthy.simps)

theorem mount_failure_stops_witness:
  "\<not> mount_outcome (complete_sandbox\<lparr>mount_outcome := \<lambda>env. False\<rparr>) example_env
   \<and> returns (syncToR2 example_mp (complete_sandbox\<lparr>mount_outcome := \<lambda>env. False\<rparr>) example_env)
       \<lparr>success = False, lastSync = None, error = Some ''Failed to mount R2 storage'',
        details = None\<rparr>
   \<and> calls (syncToR2 example_mp (complete_sandbox\<lparr>mount_outcome := \<lambda>env. False\<rparr>) example_env)
       = [Mount]"
  using mount_failure_stops [of example_env "complete_sandbox\<lparr>mount_outcome := \<lambda>env. False\<rparr>"
      example_mp]
  by simp

subsection \<open>C9\<close>

text \<open>
  Claim C9. When the sanity check is started, the error of the result is
  "Sync aborted: source missing clawdbot.json" exactly when the check ran to its end and
  its output does not include \<open>ok\<close>, and it is "Failed to verify source files" exactly
  when starting the check, awaiting it or reading its logs threw (the details are then the
  message of the error). In both cases the push command is never started.
\<close>

theorem guard_failure_modes:
  assumes "StartProcess checkCmd \<in> set (calls (syncToR2 mp sb env))"
    and "returns (syncToR2 mp sb env) r"
  shows "(error r = Some ''Sync aborted: source missing clawdbot.json'' \<longleftrightarrow>
            (\<exists>l. run_logs sb checkCmd 5000 = Inr l \<and> \<not> opt_includes (stdout l) ''ok''))
    \<and> (error r = Some ''Failed to verify source files'' \<longleftrightarrow>
            (\<exists>e. run_logs sb checkCmd 5000 = Inl e))
    \<and> (\<forall>e. run_logs sb checkCmd 5000 = Inl e \<longrightarrow> details r = Some (error_details e))
    \<and> (error r = Some ''Sync aborted: source missing clawdbot.json''
         \<or> error r = Some ''Failed to verify source files'' \<longrightarrow>
         StartProcess (syncCmd mp) \<notin> set (calls (syncToR2 mp sb env)))"
proof (cases rule: sync_cases [of env mp sb])
  case not_configured
  then show ?thesis using assms(1) by (simp add: calls_def)
next
  case mount_failed
  then show ?thesis using assms(1) by (simp add: calls_def)
next
  case (restore_failed e)
  then show ?thesis
    using assms(1) guard_not_started_before [of mp sb] by (simp add: calls_def)
next
  case (verify_failed e)
  then show ?thesis
    using assms(2) never_pushed_before [of mp sb "restore_needed mp sb"]
    by (auto simp: calls_def returns_def)
next
  case (source_missing l)
  then show ?thesis
    using assms(2) never_pushed_before [of mp sb "restore_needed mp sb"]
    by (auto simp: calls_def returns_def)
next
  case (pushed l)
  then show ?thesis
    using assms(2) push_error_classes [of mp sb r]
    by (auto simp: returns_def)
qed

theorem guard_failure_modes_witness:
  "StartProcess checkCmd \<in> set (calls (syncToR2 example_mp check_hangs_sandbox example_env))
   \<and> returns (syncToR2 example_mp check_hangs_sandbox example_env)
       \<lparr>success = False, lastSync = None, error = Some ''Failed to verify source files'',
        details = Some ''timeout''\<rparr>
   \<and> run_logs check_hangs_sandbox checkCmd 5000 = Inl (ErrorObject ''timeout'')
   \<and> StartProcess (syncCmd example_mp)
       \<notin> set (calls (syncToR2 example_mp check_hangs_sandbox example_env))"
proof -
  have started: "StartProcess checkCmd
      \<in> set (calls (syncToR2 example_mp check_hangs_sandbox example_env))"
    by (simp add: guard_started_iff check_hangs_facts del: truthy.simps)
  show ?thesis
    using guard_failure_modes [OF started check_hangs_sync] started check_hangs_sync
      check_hangs_facts(3)
    by simp
qed

subsection \<open>C10\<close>

text \<open>
  Claim C10. Every result \<open>syncToR2\<close> returns has the shape: with success, a timestamp and
  neither error nor details; without success, an error and no timestamp.
\<close>

theorem result_well_shaped:
  assumes "returns (syncToR2 mp sb env) r"
  shows "well_shaped r"
proof (cases rule: sync_cases [of env mp sb])
  case (pushed l)
  then show ?thesis
    using assms push_well_shaped [of mp sb r] by (simp add: returns_def)
qed (use assms in \<open>auto simp: returns_def well_shaped_def\<close>)

theorem result_well_shaped_witness:
  "returns (syncToR2 example_mp complete_sandbox example_env)
     \<lparr>success = True, lastSync = Some ''2026-01-15T10:30:00+00:00'', error = None,
      details = None\<rparr>
   \<and> well_shaped \<lparr>success = True, lastSync = Some ''2026-01-15T10:30:00+00:00'', error = None,
      details = None\<rparr>"
  using result_well_shaped [OF complete_sync] complete_sync by simp

end
